theory Spec2Isabelle
  imports Main "HOL-Library.Word"
begin

section \<open>Data model of StableDiffusionSubsystem.cpp\<close>

text \<open>
  The subsystem is a C++ object whose member functions mutate its fields, call into the
  engine and queue closures on other threads. The embedding passes the object's state
  explicitly, returns a fault where the C++ would stop the process (a null pointer
  followed, a failed range check, a copy outside a buffer), and records every call into
  a collaborator that is not part of the file (layer processors, the generator bridge,
  the world's actors, the event delegates) in a log kept in the state. A closure handed
  to \<open>AsyncTask\<close> is a value in the queue of its thread, and what it does when it runs
  is a function of its own: the model fixes what each closure does, not when the
  threads run them.
\<close>

datatype fault = NullDereference | RangeCheckFailed | BufferOverrun

text \<open>
  \<open>FIntPoint\<close> holds two \<open>int32\<close> coordinates. They are kept as integers; the one
  place where the source multiplies two of them wraps the product to 32 bits.
\<close>

record FIntPoint =
  X :: int
  Y :: int

definition int32 :: "int \<Rightarrow> int" where
  "int32 n = (n + 2 ^ 31) mod 2 ^ 32 - 2 ^ 31"

text \<open>The four bytes of an \<open>FColor\<close>, in the order B, G, R, A.\<close>

datatype FColor = FColor "8 word" "8 word" "8 word" "8 word"

text \<open>
  An element of a \<open>TArray<FColor>\<close> is \<open>None\<close> while it is allocated but unwritten
  (\<open>InsertUninitialized\<close>), and \<open>Some c\<close> once a colour has been stored in it.
\<close>

type_synonym PixelArray = "FColor option list"

subsection \<open>CopyFrameData\<close>

text \<open>
  \<open>FMemory::Memcpy(Dest, Src, sizeof(FColor) * Count)\<close> with \<open>Dest\<close> a pointer
  \<open>DestOffset\<close> elements into the array \<open>DestArray\<close> and \<open>Src\<close> a pointer
  \<open>SrcOffset\<close> elements into the buffer \<open>SrcBuffer\<close>. A copy of no bytes touches
  nothing; a negative count is a huge \<open>size_t\<close>; any other copy that leaves either
  buffer is an overrun.
\<close>

definition Memcpy :: "PixelArray \<Rightarrow> int \<Rightarrow> FColor list \<Rightarrow> int \<Rightarrow> int \<Rightarrow> fault + PixelArray" where
  "Memcpy DestArray DestOffset SrcBuffer SrcOffset Count =
     (if Count = 0 then Inr DestArray
      else if Count < 0 \<or> SrcOffset < 0 \<or> int (length SrcBuffer) < SrcOffset + Count
              \<or> DestOffset < 0 \<or> int (length DestArray) < DestOffset + Count
      then Inl BufferOverrun
      else Inr (take (nat DestOffset) DestArray
                @ map Some (take (nat Count) (drop (nat SrcOffset) SrcBuffer))
                @ drop (nat (DestOffset + Count)) DestArray))"

text \<open>
  The loop of \<open>CopyFrameData\<close>: \<open>Row\<close> counts up to \<open>Rows\<close>; each turn copies
  \<open>MaxWidth\<close> colours, then moves the source pointer by the source's row length
  \<open>BufferSizeX\<close> and the destination pointer by \<open>MaxWidth\<close>.
\<close>

function CopyRows ::
  "int \<Rightarrow> int \<Rightarrow> int \<Rightarrow> int \<Rightarrow> FColor list \<Rightarrow> int \<Rightarrow> PixelArray \<Rightarrow> int \<Rightarrow> fault + PixelArray" where
  "CopyRows Row Rows MaxWidth BufferSizeX ColorBuffer Src CopiedFrame Dest =
     (if Row < Rows then
        (case Memcpy CopiedFrame Dest ColorBuffer Src MaxWidth of
           Inl e \<Rightarrow> Inl e
         | Inr CopiedFrame' \<Rightarrow>
             CopyRows (Row + 1) Rows MaxWidth BufferSizeX ColorBuffer (Src + BufferSizeX)
               CopiedFrame' (Dest + MaxWidth))
      else Inr CopiedFrame)"
  by pat_completeness auto
termination
  by (relation "measure (\<lambda>(Row, Rows, _). nat (Rows - Row))") auto

declare CopyRows.simps [simp del]

text \<open>
  \<open>CopiedFrame.InsertUninitialized(0, TargetSize.X * TargetSize.Y)\<close> followed by
  \<open>&CopiedFrame[0]\<close>: the index operator of \<open>TArray\<close> checks its range, so an array
  that did not receive at least one element stops the call there.
\<close>

definition CopyFrameData :: "FIntPoint \<Rightarrow> FIntPoint \<Rightarrow> FColor list \<Rightarrow> fault + PixelArray" where
  "CopyFrameData TargetSize BufferSize ColorBuffer =
     (let Num = int32 (X TargetSize * Y TargetSize) in
      if Num \<le> 0 then Inl RangeCheckFailed
      else
        let CopiedFrame = replicate (nat Num) None;
            MaxWidth = min (X TargetSize) (X BufferSize)
        in CopyRows 0 (min (Y TargetSize) (Y BufferSize)) MaxWidth (X BufferSize)
             ColorBuffer 0 CopiedFrame 0)"

subsection \<open>Objects the subsystem holds or is handed\<close>

text \<open>
  Engine objects are handles; a C++ pointer that may be null is an \<open>option\<close>. The
  headers that declare these types are not part of the file, so each record has the
  members the file reads or writes, under the names it uses.
\<close>

datatype UStableDiffusionBridge = Bridge nat

datatype ASceneCapture2D = SceneCaptureActor nat

datatype USceneCaptureComponent2D = SceneCaptureComponent nat

text \<open>
  A layer processor: its identity, and whether \<open>IsA<UFinalColorLayerProcessor>()\<close>
  holds of it.
\<close>

datatype ULayerProcessorBase =
  LayerProcessor (ProcessorId: nat) (IsA_UFinalColorLayerProcessor: bool)

record FLevelEditorViewportClient =
  ClientId :: nat
  IsPerspective :: bool

record FSceneViewport =
  GetSizeXY :: FIntPoint
  GetSize :: FIntPoint

record FLayerData =
  Processor :: "ULayerProcessorBase option"
  LayerPixels :: PixelArray

record FStableDiffusionModelOptions =
  Layers :: "FLayerData list"

record FStableDiffusionGenerationOptions =
  InSizeX :: int
  InSizeY :: int

record FStableDiffusionInput =
  Options :: FStableDiffusionGenerationOptions
  CaptureSource :: "USceneCaptureComponent2D option"
  ProcessedLayers :: "FLayerData list"

text \<open>
  Modelled from the spec: \<open>FStableDiffusionImageResult\<close> is declared in a header that
  is not part of the file. The spec's GenerationResult has the output pixels, the
  originating request and a success/failure indicator.
\<close>

record FStableDiffusionImageResult =
  ResultInput :: FStableDiffusionInput
  OutPixels :: PixelArray
  Completed :: bool

record FViewportSceneCapture =
  SceneCapture :: "ASceneCapture2D option"
  ViewportClient :: "FLevelEditorViewportClient option"

datatype EInputImageSource = Viewport | SceneCapture2D | OtherImageSource

text \<open>
  The closure bound to \<open>FCapturedFramePayload::OnFrameCapture\<close> in
  \<open>CaptureFromViewportSource\<close> captures \<open>Input\<close> and \<open>ViewportSize\<close> by value.
\<close>

record FCapturedFramePayload =
  Captured_Input :: FStableDiffusionInput
  Captured_ViewportSize :: FIntPoint

text \<open>
  \<open>FFrameGrabber\<close> is an engine class. The record keeps what the file tells it: the
  frame size it was made with, whether frames are being captured, and the payloads
  handed to \<open>CaptureThisFrame\<close>.
\<close>

record FFrameGrabber =
  FrameSize :: FIntPoint
  bCapturingFrames :: bool
  Payloads :: "FCapturedFramePayload list"

text \<open>The closures the file hands to \<open>AsyncTask\<close>, named after the function that queues them.\<close>

datatype AsyncTask =
    GenerateImage_Task FStableDiffusionInput EInputImageSource
  | StartImageGeneration_Task FStableDiffusionInput
  | ImageGenerationComplete_Task FStableDiffusionImageResult
  | UpsampleImage_Task FStableDiffusionImageResult
  | ImageUpsampleComplete_Task FStableDiffusionImageResult

text \<open>Calls into collaborators, in the order they are made.\<close>

datatype Call =
    SpawnActor ASceneCapture2D
  | Destroy ASceneCapture2D
  | SetActorLocation ASceneCapture2D FLevelEditorViewportClient
  | SetActorRotation ASceneCapture2D FLevelEditorViewportClient
  | SetFOVAngle USceneCaptureComponent2D FLevelEditorViewportClient
  | BeginCaptureLayer ULayerProcessorBase FIntPoint USceneCaptureComponent2D
  | CaptureLayer ULayerProcessorBase USceneCaptureComponent2D "bool option"
  | EndCaptureLayer ULayerProcessorBase USceneCaptureComponent2D
  | ProcessLayer ULayerProcessorBase
  | StopImageGeneration UStableDiffusionBridge
  | GenerateImageFromStartImage UStableDiffusionBridge FStableDiffusionInput
  | Bridge_UpsampleImage UStableDiffusionBridge FStableDiffusionImageResult
  | Broadcast_OnImageGenerationCompleteEx FStableDiffusionImageResult
  | Broadcast_OnImageUpsampleCompleteEx FStableDiffusionImageResult

text \<open>
  What the engine and the collaborators answer. \<open>GetCapturingViewport\<close> is the result
  of the function of that name (it reads editor globals only, and may be an invalid
  shared pointer); \<open>HasLevelEditorSubsystem\<close> says that the editor exists, no play
  session is in progress and \<open>ULevelEditorSubsystem\<close> is found; \<open>ProcessLayer_Result\<close>
  is what a processor's \<open>ProcessLayer\<close> returns after a capture of the given size from
  the given component; the last two are the bridge's generation and upsampling.
\<close>

record Engine =
  GetCapturingViewport :: "FSceneViewport option"
  GetLevelViewportClients :: "FLevelEditorViewportClient option list"
  HasLevelEditorSubsystem :: bool
  GetCaptureComponent2D :: "ASceneCapture2D \<Rightarrow> USceneCaptureComponent2D"
  TextureTarget :: "USceneCaptureComponent2D \<Rightarrow> FIntPoint option"
  ProcessLayer_Result :: "ULayerProcessorBase \<Rightarrow> FIntPoint \<Rightarrow> USceneCaptureComponent2D \<Rightarrow> PixelArray"
  GenerateImageFromStartImage_Result :: "FStableDiffusionInput \<Rightarrow> FStableDiffusionImageResult"
  UpsampleImage_Result :: "FStableDiffusionImageResult \<Rightarrow> FStableDiffusionImageResult"

text \<open>
  The members of \<open>UStableDiffusionSubsystem\<close> that the modelled functions touch,
  followed by the engine state they change: two editor flags, the number of actors
  spawned so far, the closures queued on the game thread and on the background pool,
  and the log of calls.
\<close>

record UStableDiffusionSubsystem =
  GeneratorBridge :: "UStableDiffusionBridge option"
  ModelInitialised :: bool
  ModelOptions :: FStableDiffusionModelOptions
  bIsGenerating :: bool
  bIsUpsampling :: bool
  ViewportCapture :: "FFrameGrabber option"
  CurrentSceneCapture :: FViewportSceneCapture
  PreviewedLayer :: "ULayerProcessorBase option"
  LayerPreviewCapture :: FViewportSceneCapture
  GAreScreenMessagesEnabled :: bool
  EditorGameView :: bool
  SpawnedActors :: nat
  GameThread :: "AsyncTask list"
  BackgroundThread :: "AsyncTask list"
  Calls :: "Call list"

definition Log :: "Call list \<Rightarrow> UStableDiffusionSubsystem \<Rightarrow> UStableDiffusionSubsystem" where
  "Log cs S = S\<lparr>Calls := Calls S @ cs\<rparr>"

section \<open>Generation entry points\<close>

definition IsBridgeLoaded :: "UStableDiffusionSubsystem \<Rightarrow> bool" where
  "IsBridgeLoaded S = (case GeneratorBridge S of None \<Rightarrow> False | Some _ \<Rightarrow> True)"

text \<open>
  \<open>GenerateImage\<close> returns at once without a bridge; otherwise it sets
  \<open>bIsGenerating\<close> and queues its closure on the game thread.
\<close>

definition GenerateImage ::
  "FStableDiffusionInput \<Rightarrow> EInputImageSource \<Rightarrow> UStableDiffusionSubsystem \<Rightarrow> UStableDiffusionSubsystem" where
  "GenerateImage Input ImageSourceType S =
     (case GeneratorBridge S of
        None \<Rightarrow> S
      | Some _ \<Rightarrow>
          S\<lparr>bIsGenerating := True,
            GameThread := GameThread S @ [GenerateImage_Task Input ImageSourceType]\<rparr>)"

definition StopGeneratingImage :: "UStableDiffusionSubsystem \<Rightarrow> fault + UStableDiffusionSubsystem" where
  "StopGeneratingImage S =
     (case GeneratorBridge S of
        None \<Rightarrow> Inl NullDereference
      | Some b \<Rightarrow> Inr ((Log [StopImageGeneration b] S)\<lparr>bIsGenerating := False\<rparr>))"

definition StartImageGeneration ::
  "FStableDiffusionInput \<Rightarrow> UStableDiffusionSubsystem \<Rightarrow> UStableDiffusionSubsystem" where
  "StartImageGeneration Input S =
     S\<lparr>BackgroundThread := BackgroundThread S @ [StartImageGeneration_Task Input]\<rparr>"

text \<open>The closure \<open>StartImageGeneration\<close> queues on the background pool.\<close>

definition StartImageGeneration_Background ::
  "Engine \<Rightarrow> FStableDiffusionInput \<Rightarrow> UStableDiffusionSubsystem \<Rightarrow> fault + UStableDiffusionSubsystem" where
  "StartImageGeneration_Background E Input S =
     (case GeneratorBridge S of
        None \<Rightarrow> Inl NullDereference
      | Some b \<Rightarrow>
          let result = GenerateImageFromStartImage_Result E Input;
              S1 = Log [GenerateImageFromStartImage b Input] S
          in Inr (S1\<lparr>bIsGenerating := False,
                     GameThread := GameThread S1 @ [ImageGenerationComplete_Task result]\<rparr>))"

text \<open>The closure that one queues in turn on the game thread.\<close>

definition StartImageGeneration_GameThread ::
  "FStableDiffusionImageResult \<Rightarrow> UStableDiffusionSubsystem \<Rightarrow> UStableDiffusionSubsystem" where
  "StartImageGeneration_GameThread result S = Log [Broadcast_OnImageGenerationCompleteEx result] S"

definition UpsampleImage ::
  "FStableDiffusionImageResult \<Rightarrow> UStableDiffusionSubsystem \<Rightarrow> UStableDiffusionSubsystem" where
  "UpsampleImage input S =
     (case GeneratorBridge S of
        None \<Rightarrow> S
      | Some _ \<Rightarrow>
          S\<lparr>bIsUpsampling := True,
            BackgroundThread := BackgroundThread S @ [UpsampleImage_Task input]\<rparr>)"

definition UpsampleImage_Background ::
  "Engine \<Rightarrow> FStableDiffusionImageResult \<Rightarrow> UStableDiffusionSubsystem \<Rightarrow> fault + UStableDiffusionSubsystem" where
  "UpsampleImage_Background E input S =
     (case GeneratorBridge S of
        None \<Rightarrow> Inl NullDereference
      | Some b \<Rightarrow>
          let result = UpsampleImage_Result E input;
              S1 = Log [Bridge_UpsampleImage b input] S
          in Inr (S1\<lparr>GameThread := GameThread S1 @ [ImageUpsampleComplete_Task result]\<rparr>))"

definition UpsampleImage_GameThread ::
  "FStableDiffusionImageResult \<Rightarrow> UStableDiffusionSubsystem \<Rightarrow> UStableDiffusionSubsystem" where
  "UpsampleImage_GameThread result S =
     Log [Broadcast_OnImageUpsampleCompleteEx result] (S\<lparr>bIsUpsampling := False\<rparr>)"

section \<open>Capture\<close>

subsection \<open>The transient capture camera\<close>

text \<open>
  The loop of \<open>CreateSceneCaptureCamera\<close> over the level viewport clients: the first
  one that is not null and is perspective.
\<close>

fun FindPerspectiveClient ::
  "FLevelEditorViewportClient option list \<Rightarrow> FLevelEditorViewportClient option" where
  "FindPerspectiveClient [] = None"
| "FindPerspectiveClient (LevelVC # rest) =
     (case LevelVC of
        None \<Rightarrow> FindPerspectiveClient rest
      | Some c \<Rightarrow> if IsPerspective c then Some c else FindPerspectiveClient rest)"

text \<open>
  \<open>UpdateSceneCaptureCamera\<close> follows both pointers of the capture it is given. The
  test on the previewed layer uses \<open>IsValidLowLevel\<close>, which answers false on a null
  pointer instead of following it, so that part is a case distinction and not a fault.
\<close>

definition UpdateSceneCaptureCamera ::
  "Engine \<Rightarrow> FViewportSceneCapture \<Rightarrow> UStableDiffusionSubsystem \<Rightarrow> fault + UStableDiffusionSubsystem" where
  "UpdateSceneCaptureCamera E Capture S =
     (case SceneCapture Capture of
        None \<Rightarrow> Inl NullDereference
      | Some actor \<Rightarrow>
          (case ViewportClient Capture of
             None \<Rightarrow> Inl NullDereference
           | Some client \<Rightarrow>
               let S1 = Log [SetActorLocation actor client, SetActorRotation actor client,
                             SetFOVAngle (GetCaptureComponent2D E actor) client] S
               in (case (PreviewedLayer S1, SceneCapture (LayerPreviewCapture S1)) of
                     (Some layer, Some preview) \<Rightarrow>
                       Inr (Log [CaptureLayer layer (GetCaptureComponent2D E preview) (Some False)] S1)
                   | _ \<Rightarrow> Inr S1)))"

text \<open>
  \<open>CreateSceneCaptureCamera\<close>: without a perspective client the default-constructed
  \<open>FViewportSceneCapture\<close> (both pointers null) is returned and nothing else happens.
  \<open>SpawnActor\<close> is taken to succeed, with an actor not seen before. The five settings written to the new actor's component are not read back by any
  function of the file and are not represented.
\<close>

definition CreateSceneCaptureCamera ::
  "Engine \<Rightarrow> UStableDiffusionSubsystem \<Rightarrow> fault + (FViewportSceneCapture \<times> UStableDiffusionSubsystem)" where
  "CreateSceneCaptureCamera E S =
     (case FindPerspectiveClient (GetLevelViewportClients E) of
        None \<Rightarrow> Inr (\<lparr>SceneCapture = None, ViewportClient = None\<rparr>, S)
      | Some LevelVC \<Rightarrow>
          let actor = SceneCaptureActor (SpawnedActors S);
              Capture = \<lparr>SceneCapture = Some actor, ViewportClient = Some LevelVC\<rparr>;
              S1 = Log [SpawnActor actor] (S\<lparr>SpawnedActors := Suc (SpawnedActors S)\<rparr>)
          in (case UpdateSceneCaptureCamera E Capture S1 of
                Inl e \<Rightarrow> Inl e
              | Inr S2 \<Rightarrow> Inr (Capture, S2)))"

subsection \<open>The frame grabber\<close>

definition SetCaptureViewport ::
  "FSceneViewport \<Rightarrow> FIntPoint \<Rightarrow> UStableDiffusionSubsystem \<Rightarrow> UStableDiffusionSubsystem" where
  "SetCaptureViewport Viewport' FrameSize' S =
     S\<lparr>ViewportCapture :=
         Some \<lparr>FrameSize = FrameSize', bCapturingFrames = True, Payloads = []\<rparr>\<rparr>"

definition StartCapturingViewport ::
  "Engine \<Rightarrow> UStableDiffusionSubsystem \<Rightarrow> fault + UStableDiffusionSubsystem" where
  "StartCapturingViewport E S =
     (case GetCapturingViewport E of
        None \<Rightarrow> Inl NullDereference
      | Some OutSceneViewport \<Rightarrow>
          Inr (SetCaptureViewport OutSceneViewport (GetSize OutSceneViewport) S))"

subsection \<open>CaptureFromViewportSource\<close>

text \<open>
  The loop over \<open>ModelOptions.Layers\<close>: each layer is copied, its processor is taken
  through begin, capture, end and process against the component of the transient
  camera, and the copy is added to \<open>Input.ProcessedLayers\<close>.
\<close>

fun CaptureFromViewportSource_Layers ::
  "Engine \<Rightarrow> FIntPoint \<Rightarrow> FViewportSceneCapture \<Rightarrow> FLayerData list \<Rightarrow> FStableDiffusionInput
     \<Rightarrow> UStableDiffusionSubsystem \<Rightarrow> fault + (FStableDiffusionInput \<times> UStableDiffusionSubsystem)" where
  "CaptureFromViewportSource_Layers E ViewportSize Capture [] Input S = Inr (Input, S)"
| "CaptureFromViewportSource_Layers E ViewportSize Capture (Layer # rest) Input S =
     (case Processor Layer of
        None \<Rightarrow> Inl NullDereference
      | Some P \<Rightarrow>
          (case SceneCapture Capture of
             None \<Rightarrow> Inl NullDereference
           | Some actor \<Rightarrow>
               let Component = GetCaptureComponent2D E actor;
                   S1 = Log [BeginCaptureLayer P ViewportSize Component,
                             CaptureLayer P Component None,
                             EndCaptureLayer P Component,
                             ProcessLayer P] S;
                   TargetLayer = Layer\<lparr>LayerPixels := ProcessLayer_Result E P ViewportSize Component\<rparr>
               in CaptureFromViewportSource_Layers E ViewportSize Capture rest
                    (Input\<lparr>ProcessedLayers := ProcessedLayers Input @ [TargetLayer]\<rparr>) S1))"

text \<open>
  \<open>FindByPredicate\<close> with the predicate \<open>Layer.Processor->IsA<UFinalColorLayerProcessor>()\<close>:
  the index of the first layer it holds of.
\<close>

fun FindFinalColorLayer :: "FLayerData list \<Rightarrow> fault + nat option" where
  "FindFinalColorLayer [] = Inr None"
| "FindFinalColorLayer (Layer # rest) =
     (case Processor Layer of
        None \<Rightarrow> Inl NullDereference
      | Some P \<Rightarrow>
          if IsA_UFinalColorLayerProcessor P then Inr (Some 0)
          else (case FindFinalColorLayer rest of
                  Inl e \<Rightarrow> Inl e
                | Inr None \<Rightarrow> Inr None
                | Inr (Some i) \<Rightarrow> Inr (Some (Suc i))))"

text \<open>
  The closure bound to \<open>OnFrameCapture\<close>, run when the grabber delivers a frame
  (\<open>Pixels\<close>, \<open>BufferSize\<close>, \<open>TargetSize\<close>).
\<close>

definition CaptureFromViewportSource_OnFrameCapture ::
  "FCapturedFramePayload \<Rightarrow> FColor list \<Rightarrow> FIntPoint \<Rightarrow> FIntPoint
     \<Rightarrow> UStableDiffusionSubsystem \<Rightarrow> fault + UStableDiffusionSubsystem" where
  "CaptureFromViewportSource_OnFrameCapture payload Pixels BufferSize TargetSize S =
     (let Input = Captured_Input payload; ViewportSize = Captured_ViewportSize payload in
      case CopyFrameData TargetSize BufferSize Pixels of
        Inl e \<Rightarrow> Inl e
      | Inr CopiedFrame \<Rightarrow>
          (case FindFinalColorLayer (ProcessedLayers Input) of
             Inl e \<Rightarrow> Inl e
           | Inr FinalColorProcessor \<Rightarrow>
               let Layers1 =
                     (case FinalColorProcessor of
                        None \<Rightarrow> ProcessedLayers Input
                      | Some i \<Rightarrow>
                          (ProcessedLayers Input)
                            [i := (ProcessedLayers Input ! i)\<lparr>LayerPixels := CopiedFrame\<rparr>])
               in (case ViewportCapture S of
                     None \<Rightarrow> Inl NullDereference
                   | Some grabber \<Rightarrow>
                       let S1 = S\<lparr>ViewportCapture := Some (grabber\<lparr>bCapturingFrames := False\<rparr>)\<rparr>;
                           Input1 = Input\<lparr>ProcessedLayers := Layers1,
                                          Options := (Options Input)\<lparr>InSizeX := X ViewportSize,
                                                                    InSizeY := Y ViewportSize\<rparr>\<rparr>
                       in Inr (StartImageGeneration Input1 S1))))"

text \<open>
  \<open>FCapturedFramePayload::OnFrameReady_RenderThread\<close> broadcasts the frame to the
  closure and answers true.
\<close>

definition OnFrameReady_RenderThread ::
  "FCapturedFramePayload \<Rightarrow> FColor list \<Rightarrow> FIntPoint \<Rightarrow> FIntPoint
     \<Rightarrow> UStableDiffusionSubsystem \<Rightarrow> fault + (bool \<times> UStableDiffusionSubsystem)" where
  "OnFrameReady_RenderThread payload ColorBuffer BufferSize TargetSize S =
     (case CaptureFromViewportSource_OnFrameCapture payload ColorBuffer BufferSize TargetSize S of
        Inl e \<Rightarrow> Inl e
      | Inr S1 \<Rightarrow> Inr (True, S1))"

definition CaptureFromViewportSource ::
  "Engine \<Rightarrow> FStableDiffusionInput \<Rightarrow> UStableDiffusionSubsystem \<Rightarrow> fault + UStableDiffusionSubsystem" where
  "CaptureFromViewportSource E Input S =
     (case GetCapturingViewport E of
        None \<Rightarrow> Inl NullDereference
      | Some Viewport' \<Rightarrow>
          let ViewportSize = GetSizeXY Viewport' in
          (case StartCapturingViewport E S of
             Inl e \<Rightarrow> Inl e
           | Inr S1 \<Rightarrow>
               (case (if Layers (ModelOptions S1) = [] then Inr (Input, S1)
                      else (case CreateSceneCaptureCamera E S1 of
                              Inl e \<Rightarrow> Inl e
                            | Inr (Capture, S2) \<Rightarrow>
                                (case CaptureFromViewportSource_Layers E ViewportSize Capture
                                        (Layers (ModelOptions S2))
                                        (Input\<lparr>ProcessedLayers := []\<rparr>) S2 of
                                   Inl e \<Rightarrow> Inl e
                                 | Inr (Input1, S3) \<Rightarrow>
                                     (case SceneCapture Capture of
                                        None \<Rightarrow> Inl NullDereference
                                      | Some actor \<Rightarrow> Inr (Input1, Log [Destroy actor] S3))))) of
                  Inl e \<Rightarrow> Inl e
                | Inr (Input2, S4) \<Rightarrow>
                    (case ViewportCapture S4 of
                       None \<Rightarrow> Inl NullDereference
                     | Some grabber \<Rightarrow>
                         let framePtr = \<lparr>Captured_Input = Input2, Captured_ViewportSize = ViewportSize\<rparr>
                         in Inr (S4\<lparr>ViewportCapture :=
                                      Some (grabber\<lparr>Payloads := Payloads grabber @ [framePtr]\<rparr>)\<rparr>)))))"

subsection \<open>CaptureFromSceneCaptureSource\<close>

fun CaptureFromSceneCaptureSource_Layers ::
  "Engine \<Rightarrow> FIntPoint \<Rightarrow> USceneCaptureComponent2D \<Rightarrow> FLayerData list \<Rightarrow> FStableDiffusionInput
     \<Rightarrow> UStableDiffusionSubsystem \<Rightarrow> fault + (FStableDiffusionInput \<times> UStableDiffusionSubsystem)" where
  "CaptureFromSceneCaptureSource_Layers E CaptureSize CaptureComponent [] Input S = Inr (Input, S)"
| "CaptureFromSceneCaptureSource_Layers E CaptureSize CaptureComponent (Layer # rest) Input S =
     (case Processor Layer of
        None \<Rightarrow> Inl NullDereference
      | Some P \<Rightarrow>
          let S1 = Log [BeginCaptureLayer P CaptureSize CaptureComponent,
                        CaptureLayer P CaptureComponent None,
                        EndCaptureLayer P CaptureComponent,
                        ProcessLayer P] S;
              Layer1 = Layer\<lparr>LayerPixels := ProcessLayer_Result E P CaptureSize CaptureComponent\<rparr>
          in CaptureFromSceneCaptureSource_Layers E CaptureSize CaptureComponent rest
               (Input\<lparr>ProcessedLayers := ProcessedLayers Input @ [Layer1]\<rparr>) S1)"

definition CaptureFromSceneCaptureSource ::
  "Engine \<Rightarrow> FStableDiffusionInput \<Rightarrow> UStableDiffusionSubsystem \<Rightarrow> fault + UStableDiffusionSubsystem" where
  "CaptureFromSceneCaptureSource E Input S =
     (case (case CaptureSource Input of
              None \<Rightarrow>
                (case CreateSceneCaptureCamera E S of
                   Inl e \<Rightarrow> Inl e
                 | Inr (Capture, S1) \<Rightarrow>
                     (case SceneCapture Capture of
                        None \<Rightarrow> Inl NullDereference
                      | Some actor \<Rightarrow>
                          Inr (GetCaptureComponent2D E actor, S1\<lparr>CurrentSceneCapture := Capture\<rparr>)))
            | Some source \<Rightarrow> Inr (source, S)) of
        Inl e \<Rightarrow> Inl e
      | Inr (CaptureComponent, S2) \<Rightarrow>
          (case GetCapturingViewport E of
             None \<Rightarrow> Inl NullDereference
           | Some Viewport' \<Rightarrow>
               let ViewportSize = GetSizeXY Viewport';
                   CaptureSize = (case TextureTarget E CaptureComponent of
                                    Some target \<Rightarrow> target
                                  | None \<Rightarrow> ViewportSize)
               in (case CaptureFromSceneCaptureSource_Layers E CaptureSize CaptureComponent
                          (Layers (ModelOptions S2)) (Input\<lparr>ProcessedLayers := []\<rparr>) S2 of
                     Inl e \<Rightarrow> Inl e
                   | Inr (Input1, S3) \<Rightarrow>
                       let Input2 = Input1\<lparr>Options := (Options Input1)\<lparr>InSizeX := X CaptureSize,
                                                                         InSizeY := Y CaptureSize\<rparr>\<rparr>;
                           S4 = (case (CaptureSource Input2, SceneCapture (CurrentSceneCapture S3)) of
                                   (None, Some actor) \<Rightarrow>
                                     (Log [Destroy actor] S3)
                                       \<lparr>CurrentSceneCapture :=
                                          (CurrentSceneCapture S3)\<lparr>ViewportClient := None\<rparr>\<rparr>
                                 | _ \<Rightarrow> S3)
                       in Inr (StartImageGeneration Input2 S4))))"

subsection \<open>The closures, run\<close>

text \<open>
  The closure \<open>GenerateImage\<close> queues on the game thread: screen messages off and game
  view on, the capture for the chosen source, then both restored.
\<close>

definition GenerateImage_GameThread ::
  "Engine \<Rightarrow> FStableDiffusionInput \<Rightarrow> EInputImageSource \<Rightarrow> UStableDiffusionSubsystem
     \<Rightarrow> fault + UStableDiffusionSubsystem" where
  "GenerateImage_GameThread E Input ImageSourceType S =
     (let bPrevGScreenMessagesEnabled = GAreScreenMessagesEnabled S;
          bPrevViewportGameViewEnabled =
            (if HasLevelEditorSubsystem E then EditorGameView S else False);
          S1 = S\<lparr>GAreScreenMessagesEnabled := False,
                 EditorGameView := (if HasLevelEditorSubsystem E then True else EditorGameView S)\<rparr>
      in case (case ImageSourceType of
                 Viewport \<Rightarrow> CaptureFromViewportSource E Input S1
               | SceneCapture2D \<Rightarrow> CaptureFromSceneCaptureSource E Input S1
               | OtherImageSource \<Rightarrow> Inr S1) of
           Inl e \<Rightarrow> Inl e
         | Inr S2 \<Rightarrow>
             Inr (S2\<lparr>GAreScreenMessagesEnabled := bPrevGScreenMessagesEnabled,
                     EditorGameView := (if HasLevelEditorSubsystem E
                                        then bPrevViewportGameViewEnabled
                                        else EditorGameView S2)\<rparr>))"

text \<open>Running a queued closure is running the body it stands for.\<close>

fun RunTask :: "Engine \<Rightarrow> AsyncTask \<Rightarrow> UStableDiffusionSubsystem \<Rightarrow> fault + UStableDiffusionSubsystem" where
  "RunTask E (GenerateImage_Task Input ImageSourceType) S = GenerateImage_GameThread E Input ImageSourceType S"
| "RunTask E (StartImageGeneration_Task Input) S = StartImageGeneration_Background E Input S"
| "RunTask E (ImageGenerationComplete_Task result) S = Inr (StartImageGeneration_GameThread result S)"
| "RunTask E (UpsampleImage_Task input) S = UpsampleImage_Background E input S"
| "RunTask E (ImageUpsampleComplete_Task result) S = Inr (UpsampleImage_GameThread result S)"

section \<open>Vocabulary of the properties, and concrete instances\<close>

text \<open>The four calls one layer's capture makes on its processor.\<close>

definition LayerCaptureCalls ::
  "FIntPoint \<Rightarrow> USceneCaptureComponent2D \<Rightarrow> ULayerProcessorBase \<Rightarrow> Call list" where
  "LayerCaptureCalls CaptureSize Component P =
     [BeginCaptureLayer P CaptureSize Component, CaptureLayer P Component None,
      EndCaptureLayer P Component, ProcessLayer P]"

text \<open>A call that creates or destroys a capture camera.\<close>

fun IsCameraCall :: "Call \<Rightarrow> bool" where
  "IsCameraCall (SpawnActor _) = True"
| "IsCameraCall (Destroy _) = True"
| "IsCameraCall _ = False"

text \<open>A layer as \<open>ProcessLayer\<close> leaves it after a capture of the given size from the given component.\<close>

definition CapturedLayer ::
  "Engine \<Rightarrow> FIntPoint \<Rightarrow> USceneCaptureComponent2D \<Rightarrow> FLayerData \<Rightarrow> FLayerData" where
  "CapturedLayer E CaptureSize Component Layer =
     Layer\<lparr>LayerPixels := ProcessLayer_Result E (the (Processor Layer)) CaptureSize Component\<rparr>"

text \<open>
  The call \<open>UpdateSceneCaptureCamera\<close> makes on a previewed layer, when there is one
  and the preview camera exists.
\<close>

definition PreviewCalls :: "Engine \<Rightarrow> UStableDiffusionSubsystem \<Rightarrow> Call list" where
  "PreviewCalls E S =
     (case (PreviewedLayer S, SceneCapture (LayerPreviewCapture S)) of
        (Some layer, Some preview) \<Rightarrow>
          [CaptureLayer layer (GetCaptureComponent2D E preview) (Some False)]
      | _ \<Rightarrow> [])"

definition Pixel :: "nat \<Rightarrow> FColor" where
  "Pixel n = FColor (of_nat n) (of_nat n) (of_nat n) 255"

definition Example_Input :: FStableDiffusionInput where
  "Example_Input =
     \<lparr>Options = \<lparr>InSizeX = 512, InSizeY = 512\<rparr>, CaptureSource = None, ProcessedLayers = []\<rparr>"

text \<open>A request that names the capture component numbered 7 as its source.\<close>

definition Sourced_Input :: FStableDiffusionInput where
  "Sourced_Input = Example_Input\<lparr>CaptureSource := Some (SceneCaptureComponent 7)\<rparr>"

definition Example_Result :: FStableDiffusionImageResult where
  "Example_Result = \<lparr>ResultInput = Example_Input, OutPixels = [], Completed = False\<rparr>"

text \<open>The subsystem as constructed: no bridge, no model, nothing queued.\<close>

definition New_Subsystem :: UStableDiffusionSubsystem where
  "New_Subsystem =
     \<lparr>GeneratorBridge = None, ModelInitialised = False, ModelOptions = \<lparr>Layers = []\<rparr>,
      bIsGenerating = False, bIsUpsampling = False, ViewportCapture = None,
      CurrentSceneCapture = \<lparr>SceneCapture = None, ViewportClient = None\<rparr>,
      PreviewedLayer = None,
      LayerPreviewCapture = \<lparr>SceneCapture = None, ViewportClient = None\<rparr>,
      GAreScreenMessagesEnabled = True, EditorGameView = False, SpawnedActors = 0,
      GameThread = [], BackgroundThread = [], Calls = []\<rparr>"

text \<open>A bridge is loaded; the model has not been initialised.\<close>

definition Bridged_Subsystem :: UStableDiffusionSubsystem where
  "Bridged_Subsystem = New_Subsystem\<lparr>GeneratorBridge := Some (Bridge 0)\<rparr>"

text \<open>A generation is in flight: the flag is set and its background closure is queued.\<close>

definition Generating_Subsystem :: UStableDiffusionSubsystem where
  "Generating_Subsystem =
     Bridged_Subsystem\<lparr>ModelInitialised := True, bIsGenerating := True,
                       BackgroundThread := [StartImageGeneration_Task Example_Input]\<rparr>"

definition FinalColor_Processor :: ULayerProcessorBase where
  "FinalColor_Processor = LayerProcessor 0 True"

definition Depth_Processor :: ULayerProcessorBase where
  "Depth_Processor = LayerProcessor 1 False"

definition Declared_Layers :: "FLayerData list" where
  "Declared_Layers =
     [\<lparr>Processor = Some FinalColor_Processor, LayerPixels = []\<rparr>,
      \<lparr>Processor = Some Depth_Processor, LayerPixels = []\<rparr>]"

text \<open>A model with a final colour and a depth layer has been initialised.\<close>

definition Layered_Subsystem :: UStableDiffusionSubsystem where
  "Layered_Subsystem =
     Bridged_Subsystem\<lparr>ModelInitialised := True, ModelOptions := \<lparr>Layers = Declared_Layers\<rparr>\<rparr>"

text \<open>
  An editor whose active viewport is 2 by 2 with one perspective client. The capture
  component numbered 7 has a render target of 1 by 1; no other has one. A processor
  renders every pixel of a capture in the colour numbered 100 plus its own number; the
  bridge answers with a failed, empty result.
\<close>

definition Example_Engine :: Engine where
  "Example_Engine =
     \<lparr>GetCapturingViewport = Some \<lparr>GetSizeXY = \<lparr>X = 2, Y = 2\<rparr>, GetSize = \<lparr>X = 2, Y = 2\<rparr>\<rparr>,
      GetLevelViewportClients = [None, Some \<lparr>ClientId = 0, IsPerspective = False\<rparr>,
                                 Some \<lparr>ClientId = 1, IsPerspective = True\<rparr>],
      HasLevelEditorSubsystem = True,
      GetCaptureComponent2D = (\<lambda>actor. case actor of SceneCaptureActor n \<Rightarrow> SceneCaptureComponent n),
      TextureTarget =
        (\<lambda>c. if c = SceneCaptureComponent 7 then Some \<lparr>X = 1, Y = 1\<rparr> else None),
      ProcessLayer_Result =
        (\<lambda>P CaptureSize _. replicate (nat (X CaptureSize * Y CaptureSize)) (Some (Pixel (100 + ProcessorId P)))),
      GenerateImageFromStartImage_Result =
        (\<lambda>Input. \<lparr>ResultInput = Input, OutPixels = [], Completed = False\<rparr>),
      UpsampleImage_Result = (\<lambda>r. r)\<rparr>"

text \<open>The same editor with no perspective viewport client.\<close>

definition Orthographic_Engine :: Engine where
  "Orthographic_Engine =
     Example_Engine\<lparr>GetLevelViewportClients := [None, Some \<lparr>ClientId = 0, IsPerspective = False\<rparr>]\<rparr>"

text \<open>
  The grabber \<open>CaptureFromViewportSource\<close> leaves behind in that editor for
  \<open>Example_Input\<close> when no layer is declared: capturing, one payload handed over.
\<close>

definition Awaiting_Grabber :: FFrameGrabber where
  "Awaiting_Grabber =
     \<lparr>FrameSize = \<lparr>X = 2, Y = 2\<rparr>, bCapturingFrames = True,
      Payloads = [\<lparr>Captured_Input = Example_Input, Captured_ViewportSize = \<lparr>X = 2, Y = 2\<rparr>\<rparr>]\<rparr>"

text \<open>A 2 by 2 frame, row by row, and another of the same size.\<close>

definition Frame_A :: "FColor list" where
  "Frame_A = [Pixel 1, Pixel 2, Pixel 3, Pixel 4]"

definition Frame_B :: "FColor list" where
  "Frame_B = [Pixel 5, Pixel 6, Pixel 7, Pixel 8]"

section \<open>The in-flight flag and the bridge\<close>

text \<open>
  C1, as the code has it: \<open>GenerateImage\<close> never reads \<open>bIsGenerating\<close>. With a bridge
  loaded every call is accepted, whatever the flag is: the flag is set and one more
  closure is queued on the game thread, and nothing else changes. In particular a call
  made while the flag is set leaves the flag set and only lengthens the queue. The
  calls that change nothing are exactly those made with no bridge loaded.
\<close>

theorem GenerateImage_ignores_in_flight_flag:
  "(\<forall>b. GeneratorBridge S = Some b \<longrightarrow>
      GenerateImage Input ImageSourceType S =
        S\<lparr>bIsGenerating := True,
          GameThread := GameThread S @ [GenerateImage_Task Input ImageSourceType]\<rparr>
      \<and> GenerateImage Input ImageSourceType (S\<lparr>bIsGenerating := flag\<rparr>) =
          S\<lparr>bIsGenerating := True,
            GameThread := GameThread S @ [GenerateImage_Task Input ImageSourceType]\<rparr>
      \<and> (bIsGenerating S \<longrightarrow>
            GenerateImage Input ImageSourceType S =
              S\<lparr>GameThread := GameThread S @ [GenerateImage_Task Input ImageSourceType]\<rparr>))
   \<and> ((GenerateImage Input ImageSourceType S = S) = (GeneratorBridge S = None))"
proof -
  have changed: "GenerateImage Input ImageSourceType S \<noteq> S" if "GeneratorBridge S = Some b" for b
  proof
    assume "GenerateImage Input ImageSourceType S = S"
    then have "GameThread (GenerateImage Input ImageSourceType S) = GameThread S" by simp
    with that show False by (simp add: GenerateImage_def)
  qed
  have unchanged: "GenerateImage Input ImageSourceType S = S" if "GeneratorBridge S = None"
    using that by (simp add: GenerateImage_def)
  have only_bridgeless: "(GenerateImage Input ImageSourceType S = S) = (GeneratorBridge S = None)"
    using changed unchanged by (cases "GeneratorBridge S") auto
  show ?thesis
    using only_bridgeless by (simp add: GenerateImage_def)
qed

theorem GenerateImage_ignores_in_flight_flag_witness:
  "GeneratorBridge Generating_Subsystem = Some (Bridge 0)
   \<and> bIsGenerating Generating_Subsystem
   \<and> GenerateImage Example_Input Viewport Generating_Subsystem =
       Generating_Subsystem\<lparr>GameThread := [GenerateImage_Task Example_Input Viewport]\<rparr>
   \<and> GeneratorBridge Bridged_Subsystem = Some (Bridge 0)
   \<and> bIsGenerating Bridged_Subsystem = False
   \<and> GenerateImage Example_Input Viewport Bridged_Subsystem =
       Bridged_Subsystem\<lparr>bIsGenerating := True,
                         GameThread := [GenerateImage_Task Example_Input Viewport]\<rparr>
   \<and> GenerateImage Example_Input Viewport (Bridged_Subsystem\<lparr>bIsGenerating := True\<rparr>) =
       Bridged_Subsystem\<lparr>bIsGenerating := True,
                         GameThread := [GenerateImage_Task Example_Input Viewport]\<rparr>
   \<and> GenerateImage Example_Input Viewport Bridged_Subsystem \<noteq> Bridged_Subsystem
   \<and> GeneratorBridge New_Subsystem = None
   \<and> GenerateImage Example_Input Viewport New_Subsystem = New_Subsystem"
  using GenerateImage_ignores_in_flight_flag [of Generating_Subsystem Example_Input Viewport True]
        GenerateImage_ignores_in_flight_flag [of Bridged_Subsystem Example_Input Viewport True]
        GenerateImage_ignores_in_flight_flag [of New_Subsystem Example_Input Viewport True]
  by (simp add: Generating_Subsystem_def Bridged_Subsystem_def New_Subsystem_def)

text \<open>
  C1 as stated fails: in a subsystem whose flag is set, a second \<open>GenerateImage\<close> is
  not rejected; its closure is queued beside the generation already in flight.
\<close>

theorem GenerateImage_in_flight_counterexample:
  "bIsGenerating Generating_Subsystem
   \<and> GameThread Generating_Subsystem = []
   \<and> GameThread (GenerateImage Example_Input Viewport Generating_Subsystem) =
       [GenerateImage_Task Example_Input Viewport]"
  by (simp add: GenerateImage_def Generating_Subsystem_def Bridged_Subsystem_def New_Subsystem_def)

text \<open>
  C2, as the code has it: without a bridge \<open>GenerateImage\<close> returns with the whole state
  as it was (flag, queues and the log, where a broadcast would show, so nothing is
  signalled). With a bridge the request is accepted whatever \<open>ModelInitialised\<close> is:
  the flag is set, the closure is queued, and \<open>ModelInitialised\<close> is left as it was
  found; it plays no part in what the function does.
\<close>

theorem GenerateImage_without_bridge:
  "(GeneratorBridge S = None \<longrightarrow> GenerateImage Input ImageSourceType S = S)
   \<and> (\<forall>b. GeneratorBridge S = Some b \<longrightarrow>
        GenerateImage Input ImageSourceType (S\<lparr>ModelInitialised := m\<rparr>) =
          S\<lparr>ModelInitialised := m, bIsGenerating := True,
            GameThread := GameThread S @ [GenerateImage_Task Input ImageSourceType]\<rparr>)
   \<and> GenerateImage Input ImageSourceType (S\<lparr>ModelInitialised := m\<rparr>) =
       (GenerateImage Input ImageSourceType S)\<lparr>ModelInitialised := m\<rparr>"
  by (simp add: GenerateImage_def split: option.splits)

theorem GenerateImage_without_bridge_witness:
  "GeneratorBridge New_Subsystem = None
   \<and> GenerateImage Example_Input Viewport New_Subsystem = New_Subsystem
   \<and> GeneratorBridge Bridged_Subsystem = Some (Bridge 0)
   \<and> GenerateImage Example_Input Viewport (Bridged_Subsystem\<lparr>ModelInitialised := False\<rparr>) =
       Bridged_Subsystem\<lparr>ModelInitialised := False, bIsGenerating := True,
                         GameThread := [GenerateImage_Task Example_Input Viewport]\<rparr>
   \<and> GenerateImage Example_Input Viewport (Bridged_Subsystem\<lparr>ModelInitialised := True\<rparr>) =
       Bridged_Subsystem\<lparr>ModelInitialised := True, bIsGenerating := True,
                         GameThread := [GenerateImage_Task Example_Input Viewport]\<rparr>"
  using GenerateImage_without_bridge [of New_Subsystem Example_Input Viewport True]
        GenerateImage_without_bridge [of Bridged_Subsystem Example_Input Viewport False]
        GenerateImage_without_bridge [of Bridged_Subsystem Example_Input Viewport True]
  by (simp add: New_Subsystem_def Bridged_Subsystem_def)

text \<open>
  C2 as stated fails: with a bridge loaded and the model not initialised the request is
  accepted; the flag is set and the closure queued.
\<close>

theorem GenerateImage_uninitialised_model_counterexample:
  "ModelInitialised Bridged_Subsystem = False
   \<and> bIsGenerating Bridged_Subsystem = False
   \<and> bIsGenerating (GenerateImage Example_Input Viewport Bridged_Subsystem) = True
   \<and> GameThread (GenerateImage Example_Input Viewport Bridged_Subsystem) =
       [GenerateImage_Task Example_Input Viewport]"
  by (simp add: GenerateImage_def Bridged_Subsystem_def New_Subsystem_def)

text \<open>
  C8: when the background closure of a dispatched generation runs, it clears
  \<open>bIsGenerating\<close> and queues on the game thread a closure holding the bridge's result,
  whatever that result is (a failure is a result like any other); that closure, run,
  broadcasts the result on \<open>OnImageGenerationCompleteEx\<close>.
\<close>

theorem generation_completion_published:
  assumes "GeneratorBridge S = Some b"
  shows "RunTask E (StartImageGeneration_Task Input) S =
           Inr (S\<lparr>bIsGenerating := False,
                  Calls := Calls S @ [GenerateImageFromStartImage b Input],
                  GameThread := GameThread S @
                    [ImageGenerationComplete_Task (GenerateImageFromStartImage_Result E Input)]\<rparr>)
         \<and> RunTask E (ImageGenerationComplete_Task result) S' =
             Inr (S'\<lparr>Calls := Calls S' @ [Broadcast_OnImageGenerationCompleteEx result]\<rparr>)"
  using assms
  by (simp add: StartImageGeneration_Background_def StartImageGeneration_GameThread_def
      Log_def Let_def)

theorem generation_completion_published_witness:
  "GeneratorBridge Generating_Subsystem = Some (Bridge 0)
   \<and> RunTask Example_Engine (StartImageGeneration_Task Example_Input) Generating_Subsystem =
       Inr (Generating_Subsystem
              \<lparr>bIsGenerating := False,
               Calls := [GenerateImageFromStartImage (Bridge 0) Example_Input],
               GameThread := [ImageGenerationComplete_Task Example_Result]\<rparr>)
   \<and> Completed Example_Result = False
   \<and> RunTask Example_Engine (ImageGenerationComplete_Task Example_Result) New_Subsystem =
       Inr (New_Subsystem\<lparr>Calls := [Broadcast_OnImageGenerationCompleteEx Example_Result]\<rparr>)"
  using generation_completion_published
    [of Generating_Subsystem "Bridge 0" Example_Engine Example_Input Example_Result New_Subsystem]
  by (simp add: Generating_Subsystem_def Bridged_Subsystem_def New_Subsystem_def
      Example_Engine_def Example_Result_def)

text \<open>
  C10: \<open>StopGeneratingImage\<close> follows the bridge pointer without a check. With no bridge
  it faults, where \<open>GenerateImage\<close> and \<open>UpsampleImage\<close> return having done nothing;
  with a bridge it tells the bridge to stop and then clears \<open>bIsGenerating\<close>.
\<close>

theorem StopGeneratingImage_requires_bridge:
  "(GeneratorBridge S = None \<longrightarrow>
      StopGeneratingImage S = Inl NullDereference
      \<and> GenerateImage Input ImageSourceType S = S
      \<and> UpsampleImage input S = S)
   \<and> (\<forall>b. GeneratorBridge S = Some b \<longrightarrow>
      StopGeneratingImage S =
        Inr (S\<lparr>bIsGenerating := False, Calls := Calls S @ [StopImageGeneration b]\<rparr>))"
  by (simp add: StopGeneratingImage_def GenerateImage_def UpsampleImage_def Log_def)

theorem StopGeneratingImage_requires_bridge_witness:
  "GeneratorBridge New_Subsystem = None
   \<and> StopGeneratingImage New_Subsystem = Inl NullDereference
   \<and> GenerateImage Example_Input Viewport New_Subsystem = New_Subsystem
   \<and> UpsampleImage Example_Result New_Subsystem = New_Subsystem
   \<and> GeneratorBridge Generating_Subsystem = Some (Bridge 0)
   \<and> StopGeneratingImage Generating_Subsystem =
       Inr (Generating_Subsystem\<lparr>bIsGenerating := False, Calls := [StopImageGeneration (Bridge 0)]\<rparr>)"
  using StopGeneratingImage_requires_bridge [of New_Subsystem Example_Input Viewport Example_Result]
        StopGeneratingImage_requires_bridge [of Generating_Subsystem Example_Input Viewport Example_Result]
  by (simp add: New_Subsystem_def Generating_Subsystem_def Bridged_Subsystem_def)

section \<open>Capture from a scene capture source\<close>

lemma CaptureFromSceneCaptureSource_Layers_returns:
  assumes "\<forall>l \<in> set ls. Processor l \<noteq> None"
  shows "CaptureFromSceneCaptureSource_Layers E CaptureSize Component ls Input S =
           Inr (Input\<lparr>ProcessedLayers :=
                         ProcessedLayers Input @ map (CapturedLayer E CaptureSize Component) ls\<rparr>,
                S\<lparr>Calls := Calls S @ concat (map (\<lambda>l. LayerCaptureCalls CaptureSize Component
                                                        (the (Processor l))) ls)\<rparr>)"
  using assms
proof (induction ls arbitrary: Input S)
  case Nil
  then show ?case by simp
next
  case (Cons l ls)
  from Cons.prems obtain P where P: "Processor l = Some P" by auto
  from Cons.prems have rest: "\<forall>l \<in> set ls. Processor l \<noteq> None" by simp
  show ?case
    by (simp add: P Cons.IH [OF rest] Log_def CapturedLayer_def LayerCaptureCalls_def Let_def)
qed

lemma no_camera_call_in_layer_captures:
  "\<not> list_ex IsCameraCall (concat (map (\<lambda>l. LayerCaptureCalls CaptureSize Component (f l)) ls))"
  by (induction ls) (simp_all add: LayerCaptureCalls_def)

text \<open>
  C7: the game-thread closure of a \<open>SceneCapture2D\<close> request that names a capture source
  (with an active viewport to read a size from, and a processor in every declared
  layer) returns, and changes the subsystem in two places only. The log grows by the
  begin, capture, end and process calls of each declared layer in turn, every one of
  them against the named source, and by no call that spawns or destroys a camera; the
  background pool receives the one generation closure, holding the captured layers and
  the capture size. The spawn counter and \<open>CurrentSceneCapture\<close> are as before.
\<close>

theorem explicit_capture_source_no_camera:
  assumes source: "CaptureSource Input = Some source"
      and viewport: "GetCapturingViewport E = Some vp"
      and processors: "\<forall>l \<in> set (Layers (ModelOptions S)). Processor l \<noteq> None"
  shows "let CaptureSize = (case TextureTarget E source of Some target \<Rightarrow> target
                            | None \<Rightarrow> GetSizeXY vp);
             new_calls = concat (map (\<lambda>l. LayerCaptureCalls CaptureSize source (the (Processor l)))
                                    (Layers (ModelOptions S)))
         in RunTask E (GenerateImage_Task Input SceneCapture2D) S =
              Inr (S\<lparr>Calls := Calls S @ new_calls,
                     BackgroundThread := BackgroundThread S @
                       [StartImageGeneration_Task
                          (Input\<lparr>ProcessedLayers :=
                                    map (CapturedLayer E CaptureSize source) (Layers (ModelOptions S)),
                                 Options := (Options Input)\<lparr>InSizeX := X CaptureSize,
                                                           InSizeY := Y CaptureSize\<rparr>\<rparr>)]\<rparr>)
            \<and> \<not> list_ex IsCameraCall new_calls"
proof -
  define CaptureSize where
    "CaptureSize = (case TextureTarget E source of Some target \<Rightarrow> target | None \<Rightarrow> GetSizeXY vp)"
  define S1 where
    "S1 = S\<lparr>GAreScreenMessagesEnabled := False,
            EditorGameView := (if HasLevelEditorSubsystem E then True else EditorGameView S)\<rparr>"
  have layers: "Layers (ModelOptions S1) = Layers (ModelOptions S)"
    by (simp add: S1_def)
  have procs1: "\<forall>l \<in> set (Layers (ModelOptions S1)). Processor l \<noteq> None"
    using processors layers by simp
  note loop = CaptureFromSceneCaptureSource_Layers_returns
    [OF procs1, of E CaptureSize source "Input\<lparr>ProcessedLayers := []\<rparr>" S1]
  have run: "RunTask E (GenerateImage_Task Input SceneCapture2D) S =
              Inr (S\<lparr>Calls := Calls S @ concat (map (\<lambda>l. LayerCaptureCalls CaptureSize source
                                                            (the (Processor l)))
                                                   (Layers (ModelOptions S))),
                     BackgroundThread := BackgroundThread S @
                       [StartImageGeneration_Task
                          (Input\<lparr>ProcessedLayers :=
                                    map (CapturedLayer E CaptureSize source) (Layers (ModelOptions S)),
                                 Options := (Options Input)\<lparr>InSizeX := X CaptureSize,
                                                           InSizeY := Y CaptureSize\<rparr>\<rparr>)]\<rparr>)"
    using loop layers
    apply (simp add: GenerateImage_GameThread_def CaptureFromSceneCaptureSource_def source viewport
        Let_def S1_def [symmetric] CaptureSize_def [symmetric] StartImageGeneration_def)
    apply (simp add: S1_def)
    done
  show ?thesis
    unfolding Let_def CaptureSize_def [symmetric]
    using run no_camera_call_in_layer_captures by simp
qed

theorem explicit_capture_source_no_camera_witness:
  "CaptureSource Sourced_Input = Some (SceneCaptureComponent 7)
   \<and> GetCapturingViewport Example_Engine = Some \<lparr>GetSizeXY = \<lparr>X = 2, Y = 2\<rparr>, GetSize = \<lparr>X = 2, Y = 2\<rparr>\<rparr>
   \<and> list_all (\<lambda>l. Processor l \<noteq> None) (Layers (ModelOptions Layered_Subsystem))
   \<and> RunTask Example_Engine (GenerateImage_Task Sourced_Input SceneCapture2D) Layered_Subsystem =
       Inr (Layered_Subsystem
             \<lparr>Calls :=
                [BeginCaptureLayer FinalColor_Processor \<lparr>X = 1, Y = 1\<rparr> (SceneCaptureComponent 7),
                 CaptureLayer FinalColor_Processor (SceneCaptureComponent 7) None,
                 EndCaptureLayer FinalColor_Processor (SceneCaptureComponent 7),
                 ProcessLayer FinalColor_Processor,
                 BeginCaptureLayer Depth_Processor \<lparr>X = 1, Y = 1\<rparr> (SceneCaptureComponent 7),
                 CaptureLayer Depth_Processor (SceneCaptureComponent 7) None,
                 EndCaptureLayer Depth_Processor (SceneCaptureComponent 7),
                 ProcessLayer Depth_Processor],
              BackgroundThread :=
                [StartImageGeneration_Task
                   \<lparr>Options = \<lparr>InSizeX = 1, InSizeY = 1\<rparr>,
                    CaptureSource = Some (SceneCaptureComponent 7),
                    ProcessedLayers =
                      [\<lparr>Processor = Some FinalColor_Processor, LayerPixels = [Some (Pixel 100)]\<rparr>,
                       \<lparr>Processor = Some Depth_Processor, LayerPixels = [Some (Pixel 101)]\<rparr>]\<rparr>]\<rparr>)"
  using explicit_capture_source_no_camera
    [of Sourced_Input "SceneCaptureComponent 7" Example_Engine
        "\<lparr>GetSizeXY = \<lparr>X = 2, Y = 2\<rparr>, GetSize = \<lparr>X = 2, Y = 2\<rparr>\<rparr>" Layered_Subsystem]
  by (simp add: Sourced_Input_def Example_Input_def Example_Engine_def Layered_Subsystem_def
      Bridged_Subsystem_def New_Subsystem_def Declared_Layers_def LayerCaptureCalls_def
      CapturedLayer_def FinalColor_Processor_def Depth_Processor_def Let_def)

section \<open>Capture from the viewport\<close>

lemma CaptureFromViewportSource_Layers_returns:
  assumes "\<forall>l \<in> set ls. Processor l \<noteq> None" and "SceneCapture Capture = Some actor"
  shows "CaptureFromViewportSource_Layers E ViewportSize Capture ls Input S =
           Inr (Input\<lparr>ProcessedLayers := ProcessedLayers Input
                         @ map (CapturedLayer E ViewportSize (GetCaptureComponent2D E actor)) ls\<rparr>,
                S\<lparr>Calls := Calls S @ concat (map (\<lambda>l. LayerCaptureCalls ViewportSize
                                  (GetCaptureComponent2D E actor) (the (Processor l))) ls)\<rparr>)"
  using assms
proof (induction ls arbitrary: Input S)
  case Nil
  then show ?case by simp
next
  case (Cons l ls)
  from Cons.prems obtain P where P: "Processor l = Some P" by auto
  from Cons.prems have rest: "\<forall>l \<in> set ls. Processor l \<noteq> None" by simp
  show ?case
    by (simp add: P Cons.prems(2) Cons.IH [OF rest Cons.prems(2)] Log_def CapturedLayer_def
        LayerCaptureCalls_def Let_def)
qed

lemma CreateSceneCaptureCamera_found:
  assumes "FindPerspectiveClient (GetLevelViewportClients E) = Some client"
  shows "CreateSceneCaptureCamera E S =
           Inr (\<lparr>SceneCapture = Some (SceneCaptureActor (SpawnedActors S)), ViewportClient = Some client\<rparr>,
                S\<lparr>SpawnedActors := Suc (SpawnedActors S),
                  Calls := Calls S @
                    [SpawnActor (SceneCaptureActor (SpawnedActors S)),
                     SetActorLocation (SceneCaptureActor (SpawnedActors S)) client,
                     SetActorRotation (SceneCaptureActor (SpawnedActors S)) client,
                     SetFOVAngle (GetCaptureComponent2D E (SceneCaptureActor (SpawnedActors S))) client]
                    @ PreviewCalls E S\<rparr>)"
  using assms
  by (simp add: CreateSceneCaptureCamera_def UpdateSceneCaptureCamera_def Log_def Let_def PreviewCalls_def
      split: option.splits)

lemma FindFinalColorLayer_first:
  assumes "\<forall>l \<in> set pre. Processor l \<noteq> None \<and> \<not> IsA_UFinalColorLayerProcessor (the (Processor l))"
      and "Processor fc \<noteq> None" and "IsA_UFinalColorLayerProcessor (the (Processor fc))"
  shows "FindFinalColorLayer (pre @ fc # post) = Inr (Some (length pre))"
  using assms by (induction pre) auto

lemma Processor_CapturedLayer [simp]:
  "Processor (CapturedLayer E CaptureSize Component l) = Processor l"
  by (simp add: CapturedLayer_def)

lemma list_update_middle:
  "(map f pre @ f fc # map f post)[length pre := g] = map f pre @ g # map f post"
  by (metis length_map list_update_length)

lemma CopyFrameData_Frame_A:
  "CopyFrameData \<lparr>X = 2, Y = 2\<rparr> \<lparr>X = 2, Y = 2\<rparr> Frame_A = Inr (map Some Frame_A)"
  by (simp add: CopyFrameData_def int32_def CopyRows.simps Memcpy_def Frame_A_def numeral_eq_Suc)

lemma CopyFrameData_Frame_B:
  "CopyFrameData \<lparr>X = 2, Y = 2\<rparr> \<lparr>X = 2, Y = 2\<rparr> Frame_B = Inr (map Some Frame_B)"
  by (simp add: CopyFrameData_def int32_def CopyRows.simps Memcpy_def Frame_B_def numeral_eq_Suc)

text \<open>
  C3: a \<open>Viewport\<close> request in an editor with an active viewport and a perspective
  client, for a model whose declared layers all have processors and whose first final
  colour layer is \<open>fc\<close>. The game-thread closure returns, leaving one payload with the
  grabber and nothing dispatched yet. When the grabber delivers a frame that
  \<open>CopyFrameData\<close> copies to \<open>CopiedFrame\<close>, the closure of the payload returns too,
  and the background pool has received exactly one generation closure. Its request
  has the layer \<open>fc\<close> with \<open>CopiedFrame\<close> for pixels, every other declared layer with
  the pixels its own processor returned for the capture from the transient camera, and
  the size of the viewport for \<open>InSizeX\<close> and \<open>InSizeY\<close>.
\<close>

theorem viewport_frame_into_final_color_layer:
  assumes viewport: "GetCapturingViewport E = Some vp"
      and client: "FindPerspectiveClient (GetLevelViewportClients E) = Some client"
      and declared: "Layers (ModelOptions S) = pre @ fc # post"
      and processors: "\<forall>l \<in> set (pre @ fc # post). Processor l \<noteq> None"
      and not_before: "\<forall>l \<in> set pre. \<not> IsA_UFinalColorLayerProcessor (the (Processor l))"
      and final: "IsA_UFinalColorLayerProcessor (the (Processor fc))"
      and copied: "CopyFrameData TargetSize BufferSize Pixels = Inr CopiedFrame"
  shows "let captured = CapturedLayer E (GetSizeXY vp)
                          (GetCaptureComponent2D E (SceneCaptureActor (SpawnedActors S)));
             payload = \<lparr>Captured_Input = Input\<lparr>ProcessedLayers := map captured (pre @ fc # post)\<rparr>,
                        Captured_ViewportSize = GetSizeXY vp\<rparr>;
             dispatched = Input\<lparr>ProcessedLayers :=
                                  map captured pre @ fc\<lparr>LayerPixels := CopiedFrame\<rparr> # map captured post,
                                Options := (Options Input)\<lparr>InSizeX := X (GetSizeXY vp),
                                                          InSizeY := Y (GetSizeXY vp)\<rparr>\<rparr>
         in \<exists>S1 S2.
              RunTask E (GenerateImage_Task Input Viewport) S = Inr S1
              \<and> ViewportCapture S1 =
                  Some \<lparr>FrameSize = GetSize vp, bCapturingFrames = True, Payloads = [payload]\<rparr>
              \<and> BackgroundThread S1 = BackgroundThread S
              \<and> OnFrameReady_RenderThread payload Pixels BufferSize TargetSize S1 = Inr (True, S2)
              \<and> BackgroundThread S2 = BackgroundThread S @ [StartImageGeneration_Task dispatched]"
proof -
  define actor where "actor = SceneCaptureActor (SpawnedActors S)"
  define captured where
    "captured = CapturedLayer E (GetSizeXY vp) (GetCaptureComponent2D E actor)"
  define payload where
    "payload = \<lparr>Captured_Input = Input\<lparr>ProcessedLayers := map captured (pre @ fc # post)\<rparr>,
                Captured_ViewportSize = GetSizeXY vp\<rparr>"
  define S0 where
    "S0 = S\<lparr>GAreScreenMessagesEnabled := False,
            EditorGameView := (if HasLevelEditorSubsystem E then True else EditorGameView S),
            ViewportCapture := Some \<lparr>FrameSize = GetSize vp, bCapturingFrames = True, Payloads = []\<rparr>\<rparr>"
  have start: "StartCapturingViewport E
                 (S\<lparr>GAreScreenMessagesEnabled := False,
                    EditorGameView := (if HasLevelEditorSubsystem E then True else EditorGameView S)\<rparr>)
               = Inr S0"
    by (simp add: StartCapturingViewport_def viewport SetCaptureViewport_def S0_def)
  have S0_layers: "Layers (ModelOptions S0) = pre @ fc # post"
    by (simp add: S0_def declared)
  obtain S2' where create: "CreateSceneCaptureCamera E S0 =
        Inr (\<lparr>SceneCapture = Some actor, ViewportClient = Some client\<rparr>, S2')"
      and S2': "S2' = S0\<lparr>SpawnedActors := Suc (SpawnedActors S0),
                  Calls := Calls S0 @
                    [SpawnActor actor, SetActorLocation actor client, SetActorRotation actor client,
                     SetFOVAngle (GetCaptureComponent2D E actor) client] @ PreviewCalls E S0\<rparr>"
    using CreateSceneCaptureCamera_found [OF client, of S0] by (simp add: actor_def S0_def)
  have S2'_layers: "Layers (ModelOptions S2') = pre @ fc # post"
    by (simp add: S2' S0_layers)
  have loop: "CaptureFromViewportSource_Layers E (GetSizeXY vp)
                \<lparr>SceneCapture = Some actor, ViewportClient = Some client\<rparr> (pre @ fc # post)
                (Input\<lparr>ProcessedLayers := []\<rparr>) S2' =
              Inr (Input\<lparr>ProcessedLayers := map captured (pre @ fc # post)\<rparr>,
                   S2'\<lparr>Calls := Calls S2' @ concat (map (\<lambda>l. LayerCaptureCalls (GetSizeXY vp)
                                  (GetCaptureComponent2D E actor) (the (Processor l))) (pre @ fc # post))\<rparr>)"
    using CaptureFromViewportSource_Layers_returns [OF processors, of
        "\<lparr>SceneCapture = Some actor, ViewportClient = Some client\<rparr>" actor E "GetSizeXY vp"
        "Input\<lparr>ProcessedLayers := []\<rparr>" S2']
    by (simp add: captured_def)
  define S1 where
    "S1 = S2'\<lparr>Calls := Calls S2' @ concat (map (\<lambda>l. LayerCaptureCalls (GetSizeXY vp)
                                  (GetCaptureComponent2D E actor) (the (Processor l))) (pre @ fc # post))
                          @ [Destroy actor],
              ViewportCapture := Some \<lparr>FrameSize = GetSize vp, bCapturingFrames = True, Payloads = [payload]\<rparr>,
              GAreScreenMessagesEnabled := GAreScreenMessagesEnabled S,
              EditorGameView := EditorGameView S\<rparr>"
  have capture: "CaptureFromViewportSource E Input
                 (S\<lparr>GAreScreenMessagesEnabled := False,
                    EditorGameView := (if HasLevelEditorSubsystem E then True else EditorGameView S)\<rparr>)
          = Inr (S2'\<lparr>Calls := Calls S2' @ concat (map (\<lambda>l. LayerCaptureCalls (GetSizeXY vp)
                                  (GetCaptureComponent2D E actor) (the (Processor l))) (pre @ fc # post))
                          @ [Destroy actor],
              ViewportCapture := Some \<lparr>FrameSize = GetSize vp, bCapturingFrames = True, Payloads = [payload]\<rparr>\<rparr>)"
    unfolding CaptureFromViewportSource_def
    apply (simp only: viewport option.case Let_def start sum.case S0_layers create prod.case S2'_layers loop)
    apply (simp add: Log_def payload_def S2' S0_def)
    done
  have run: "RunTask E (GenerateImage_Task Input Viewport) S = Inr S1"
    apply (simp add: GenerateImage_GameThread_def Let_def capture)
    apply (simp add: S1_def S2' S0_def)
    done
  have found: "FindFinalColorLayer (map captured (pre @ fc # post)) = Inr (Some (length pre))"
    using FindFinalColorLayer_first [of "map captured pre" "captured fc" "map captured post"]
      processors not_before final
    by (simp add: captured_def)
  define dispatched where
    "dispatched = Input\<lparr>ProcessedLayers :=
                          map captured pre @ fc\<lparr>LayerPixels := CopiedFrame\<rparr> # map captured post,
                        Options := (Options Input)\<lparr>InSizeX := X (GetSizeXY vp),
                                                  InSizeY := Y (GetSizeXY vp)\<rparr>\<rparr>"
  have S1_grabber: "ViewportCapture S1 =
      Some \<lparr>FrameSize = GetSize vp, bCapturingFrames = True, Payloads = [payload]\<rparr>"
    by (simp add: S1_def)
  have S1_background: "BackgroundThread S1 = BackgroundThread S"
    by (simp add: S1_def S2' S0_def)
  have nth: "(map captured pre @ captured fc # map captured post) ! length pre = captured fc"
    by (metis length_map nth_append_length)
  have pl: "ProcessedLayers (Captured_Input payload) = map captured pre @ captured fc # map captured post"
    by (simp add: payload_def)
  have found': "FindFinalColorLayer (ProcessedLayers (Captured_Input payload)) = Inr (Some (length pre))"
    using found pl by simp
  have upd: "(ProcessedLayers (Captured_Input payload))
               [length pre := (ProcessedLayers (Captured_Input payload) ! length pre)\<lparr>LayerPixels := CopiedFrame\<rparr>]
             = map captured pre @ fc\<lparr>LayerPixels := CopiedFrame\<rparr> # map captured post"
    by (simp add: pl nth list_update_middle) (simp add: captured_def CapturedLayer_def)
  have deliver: "CaptureFromViewportSource_OnFrameCapture payload Pixels BufferSize TargetSize S1 =
      Inr (S1\<lparr>ViewportCapture := Some \<lparr>FrameSize = GetSize vp, bCapturingFrames = False, Payloads = [payload]\<rparr>,
              BackgroundThread := BackgroundThread S @ [StartImageGeneration_Task dispatched]\<rparr>)"
    unfolding CaptureFromViewportSource_OnFrameCapture_def
    apply (simp only: Let_def copied sum.case found' option.case upd S1_grabber)
    apply (simp add: StartImageGeneration_def S1_background dispatched_def payload_def)
    done
  define S2 where
    "S2 = S1\<lparr>ViewportCapture := Some \<lparr>FrameSize = GetSize vp, bCapturingFrames = False, Payloads = [payload]\<rparr>,
              BackgroundThread := BackgroundThread S @ [StartImageGeneration_Task dispatched]\<rparr>"
  have ready: "OnFrameReady_RenderThread payload Pixels BufferSize TargetSize S1 = Inr (True, S2)"
    by (simp add: OnFrameReady_RenderThread_def deliver S2_def)
  have S2_background: "BackgroundThread S2 = BackgroundThread S @ [StartImageGeneration_Task dispatched]"
    by (simp add: S2_def)
  show ?thesis
    unfolding Let_def actor_def [symmetric] captured_def [symmetric] payload_def [symmetric]
      dispatched_def [symmetric]
    using run S1_grabber S1_background ready S2_background by blast
qed

theorem viewport_frame_into_final_color_layer_witness:
  "GetCapturingViewport Example_Engine = Some \<lparr>GetSizeXY = \<lparr>X = 2, Y = 2\<rparr>, GetSize = \<lparr>X = 2, Y = 2\<rparr>\<rparr>
   \<and> FindPerspectiveClient (GetLevelViewportClients Example_Engine) = Some \<lparr>ClientId = 1, IsPerspective = True\<rparr>
   \<and> Layers (ModelOptions Layered_Subsystem) =
       [] @ \<lparr>Processor = Some FinalColor_Processor, LayerPixels = []\<rparr>
          # [\<lparr>Processor = Some Depth_Processor, LayerPixels = []\<rparr>]
   \<and> IsA_UFinalColorLayerProcessor FinalColor_Processor
   \<and> CopyFrameData \<lparr>X = 2, Y = 2\<rparr> \<lparr>X = 2, Y = 2\<rparr> Frame_A = Inr (map Some Frame_A)
   \<and> (\<exists>S1 S2.
        RunTask Example_Engine (GenerateImage_Task Example_Input Viewport) Layered_Subsystem = Inr S1
        \<and> OnFrameReady_RenderThread
             \<lparr>Captured_Input =
                Example_Input\<lparr>ProcessedLayers :=
                  [\<lparr>Processor = Some FinalColor_Processor, LayerPixels = replicate 4 (Some (Pixel 100))\<rparr>,
                   \<lparr>Processor = Some Depth_Processor, LayerPixels = replicate 4 (Some (Pixel 101))\<rparr>]\<rparr>,
              Captured_ViewportSize = \<lparr>X = 2, Y = 2\<rparr>\<rparr>
             Frame_A \<lparr>X = 2, Y = 2\<rparr> \<lparr>X = 2, Y = 2\<rparr> S1 = Inr (True, S2)
        \<and> BackgroundThread S2 =
            [StartImageGeneration_Task
               \<lparr>Options = \<lparr>InSizeX = 2, InSizeY = 2\<rparr>, CaptureSource = None,
                ProcessedLayers =
                  [\<lparr>Processor = Some FinalColor_Processor, LayerPixels = map Some Frame_A\<rparr>,
                   \<lparr>Processor = Some Depth_Processor, LayerPixels = replicate 4 (Some (Pixel 101))\<rparr>]\<rparr>])"
  using viewport_frame_into_final_color_layer
    [of Example_Engine "\<lparr>GetSizeXY = \<lparr>X = 2, Y = 2\<rparr>, GetSize = \<lparr>X = 2, Y = 2\<rparr>\<rparr>"
        "\<lparr>ClientId = 1, IsPerspective = True\<rparr>" Layered_Subsystem
        "[]" "\<lparr>Processor = Some FinalColor_Processor, LayerPixels = []\<rparr>"
        "[\<lparr>Processor = Some Depth_Processor, LayerPixels = []\<rparr>]"
        "\<lparr>X = 2, Y = 2\<rparr>" "\<lparr>X = 2, Y = 2\<rparr>" Frame_A "map Some Frame_A" Example_Input,
     OF _ _ _ _ _ _ CopyFrameData_Frame_A]
  by (simp add: CopyFrameData_Frame_A Example_Engine_def Layered_Subsystem_def Bridged_Subsystem_def
      New_Subsystem_def Declared_Layers_def FinalColor_Processor_def Depth_Processor_def
      Example_Input_def CapturedLayer_def Let_def) blast

text \<open>
  C6, as the code has it: a \<open>Viewport\<close> request for a model that declares no layer,
  in an editor with an active viewport, whose supplied layers have a processor each as
  far as the search for a final colour layer reads them (a null one met there is
  followed, a fault). The game-thread closure returns and changes
  nothing but the grabber: no camera is spawned, no processor is called, and
  \<open>Input.ProcessedLayers\<close> stays as the caller supplied it. On delivery of a frame that
  \<open>CopyFrameData\<close> copies, exactly one generation closure is dispatched, with the
  viewport's size. The copied frame goes into the first supplied layer that has a final
  colour processor; when none has one (\<open>found\<close> is \<open>None\<close>), the request is dispatched
  with the supplied layers as they were and the copied frame is dropped.
\<close>

theorem viewport_without_declared_layers:
  assumes viewport: "GetCapturingViewport E = Some vp"
      and none_declared: "Layers (ModelOptions S) = []"
      and supplied: "FindFinalColorLayer (ProcessedLayers Input) = Inr found"
      and copied: "CopyFrameData TargetSize BufferSize Pixels = Inr CopiedFrame"
  shows "let payload = \<lparr>Captured_Input = Input, Captured_ViewportSize = GetSizeXY vp\<rparr>;
             S1 = S\<lparr>ViewportCapture :=
                      Some \<lparr>FrameSize = GetSize vp, bCapturingFrames = True, Payloads = [payload]\<rparr>\<rparr>;
             layers = (case found of
                         None \<Rightarrow> ProcessedLayers Input
                       | Some i \<Rightarrow> (ProcessedLayers Input)
                                    [i := (ProcessedLayers Input ! i)\<lparr>LayerPixels := CopiedFrame\<rparr>]);
             dispatched = Input\<lparr>ProcessedLayers := layers,
                                Options := (Options Input)\<lparr>InSizeX := X (GetSizeXY vp),
                                                          InSizeY := Y (GetSizeXY vp)\<rparr>\<rparr>
         in RunTask E (GenerateImage_Task Input Viewport) S = Inr S1
            \<and> OnFrameReady_RenderThread payload Pixels BufferSize TargetSize S1 =
                Inr (True,
                     S\<lparr>ViewportCapture :=
                          Some \<lparr>FrameSize = GetSize vp, bCapturingFrames = False, Payloads = [payload]\<rparr>,
                        BackgroundThread := BackgroundThread S @ [StartImageGeneration_Task dispatched]\<rparr>)"
proof -
  define payload where "payload = \<lparr>Captured_Input = Input, Captured_ViewportSize = GetSizeXY vp\<rparr>"
  define S1 where
    "S1 = S\<lparr>ViewportCapture :=
              Some \<lparr>FrameSize = GetSize vp, bCapturingFrames = True, Payloads = [payload]\<rparr>\<rparr>"
  have run: "RunTask E (GenerateImage_Task Input Viewport) S = Inr S1"
    by (simp add: GenerateImage_GameThread_def CaptureFromViewportSource_def viewport
        StartCapturingViewport_def SetCaptureViewport_def none_declared Let_def S1_def payload_def)
  have deliver: "OnFrameReady_RenderThread payload Pixels BufferSize TargetSize S1 =
      Inr (True,
           S\<lparr>ViewportCapture :=
                Some \<lparr>FrameSize = GetSize vp, bCapturingFrames = False, Payloads = [payload]\<rparr>,
              BackgroundThread := BackgroundThread S @
                [StartImageGeneration_Task
                   (Input\<lparr>ProcessedLayers :=
                            (case found of
                               None \<Rightarrow> ProcessedLayers Input
                             | Some i \<Rightarrow> (ProcessedLayers Input)
                                    [i := (ProcessedLayers Input ! i)\<lparr>LayerPixels := CopiedFrame\<rparr>]),
                          Options := (Options Input)\<lparr>InSizeX := X (GetSizeXY vp),
                                                    InSizeY := Y (GetSizeXY vp)\<rparr>\<rparr>)]\<rparr>)"
    by (simp add: OnFrameReady_RenderThread_def CaptureFromViewportSource_OnFrameCapture_def copied
        supplied payload_def S1_def StartImageGeneration_def Let_def)
  show ?thesis
    unfolding Let_def payload_def [symmetric] S1_def [symmetric]
    using run deliver by simp
qed

theorem viewport_without_declared_layers_witness:
  "Layers (ModelOptions Bridged_Subsystem) = []
   \<and> FindFinalColorLayer (ProcessedLayers Example_Input) = Inr None
   \<and> RunTask Example_Engine (GenerateImage_Task Example_Input Viewport) Bridged_Subsystem =
       Inr (Bridged_Subsystem\<lparr>ViewportCapture := Some Awaiting_Grabber\<rparr>)
   \<and> OnFrameReady_RenderThread \<lparr>Captured_Input = Example_Input, Captured_ViewportSize = \<lparr>X = 2, Y = 2\<rparr>\<rparr>
        Frame_A \<lparr>X = 2, Y = 2\<rparr> \<lparr>X = 2, Y = 2\<rparr>
        (Bridged_Subsystem\<lparr>ViewportCapture := Some Awaiting_Grabber\<rparr>) =
       Inr (True,
            Bridged_Subsystem
              \<lparr>ViewportCapture := Some (Awaiting_Grabber\<lparr>bCapturingFrames := False\<rparr>),
               BackgroundThread :=
                 [StartImageGeneration_Task (Example_Input\<lparr>Options := \<lparr>InSizeX = 2, InSizeY = 2\<rparr>\<rparr>)]\<rparr>)"
  using viewport_without_declared_layers
    [of Example_Engine "\<lparr>GetSizeXY = \<lparr>X = 2, Y = 2\<rparr>, GetSize = \<lparr>X = 2, Y = 2\<rparr>\<rparr>"
        Bridged_Subsystem Example_Input None
        "\<lparr>X = 2, Y = 2\<rparr>" "\<lparr>X = 2, Y = 2\<rparr>" Frame_A "map Some Frame_A",
     OF _ _ _ CopyFrameData_Frame_A]
  by (simp add: Example_Engine_def Bridged_Subsystem_def New_Subsystem_def Example_Input_def
      Awaiting_Grabber_def Let_def)

lemma Frame_A_not_Frame_B: "Frame_A \<noteq> Frame_B"
  by (simp add: Frame_A_def Frame_B_def Pixel_def)

lemma frame_delivery_without_layers:
  assumes "CopyFrameData \<lparr>X = 2, Y = 2\<rparr> \<lparr>X = 2, Y = 2\<rparr> Pixels = Inr CopiedFrame"
  shows "OnFrameReady_RenderThread \<lparr>Captured_Input = Example_Input, Captured_ViewportSize = \<lparr>X = 2, Y = 2\<rparr>\<rparr>
        Pixels \<lparr>X = 2, Y = 2\<rparr> \<lparr>X = 2, Y = 2\<rparr>
        (Bridged_Subsystem\<lparr>ViewportCapture := Some Awaiting_Grabber\<rparr>) =
       Inr (True,
            Bridged_Subsystem
              \<lparr>ViewportCapture := Some (Awaiting_Grabber\<lparr>bCapturingFrames := False\<rparr>),
               BackgroundThread :=
                 [StartImageGeneration_Task
                    \<lparr>Options = \<lparr>InSizeX = 2, InSizeY = 2\<rparr>, CaptureSource = None, ProcessedLayers = []\<rparr>]\<rparr>)"
  by (simp add: OnFrameReady_RenderThread_def CaptureFromViewportSource_OnFrameCapture_def assms
      StartImageGeneration_def Bridged_Subsystem_def New_Subsystem_def Example_Input_def
      Awaiting_Grabber_def Let_def)

text \<open>
  C6 as stated fails: with no declared layer and no supplied layer, two different frames
  delivered to the same waiting subsystem dispatch one and the same request, which has
  no layer and so no pixel of either frame.
\<close>

theorem viewport_without_layers_drops_frame_counterexample:
  "Layers (ModelOptions Bridged_Subsystem) = []
   \<and> RunTask Example_Engine (GenerateImage_Task Example_Input Viewport) Bridged_Subsystem =
       Inr (Bridged_Subsystem\<lparr>ViewportCapture := Some Awaiting_Grabber\<rparr>)
   \<and> Payloads Awaiting_Grabber = [\<lparr>Captured_Input = Example_Input, Captured_ViewportSize = \<lparr>X = 2, Y = 2\<rparr>\<rparr>]
   \<and> Frame_A \<noteq> Frame_B
   \<and> OnFrameReady_RenderThread \<lparr>Captured_Input = Example_Input, Captured_ViewportSize = \<lparr>X = 2, Y = 2\<rparr>\<rparr>
        Frame_A \<lparr>X = 2, Y = 2\<rparr> \<lparr>X = 2, Y = 2\<rparr>
        (Bridged_Subsystem\<lparr>ViewportCapture := Some Awaiting_Grabber\<rparr>) =
       Inr (True,
            Bridged_Subsystem
              \<lparr>ViewportCapture := Some (Awaiting_Grabber\<lparr>bCapturingFrames := False\<rparr>),
               BackgroundThread :=
                 [StartImageGeneration_Task
                    \<lparr>Options = \<lparr>InSizeX = 2, InSizeY = 2\<rparr>, CaptureSource = None, ProcessedLayers = []\<rparr>]\<rparr>)
   \<and> OnFrameReady_RenderThread \<lparr>Captured_Input = Example_Input, Captured_ViewportSize = \<lparr>X = 2, Y = 2\<rparr>\<rparr>
        Frame_B \<lparr>X = 2, Y = 2\<rparr> \<lparr>X = 2, Y = 2\<rparr>
        (Bridged_Subsystem\<lparr>ViewportCapture := Some Awaiting_Grabber\<rparr>) =
       Inr (True,
            Bridged_Subsystem
              \<lparr>ViewportCapture := Some (Awaiting_Grabber\<lparr>bCapturingFrames := False\<rparr>),
               BackgroundThread :=
                 [StartImageGeneration_Task
                    \<lparr>Options = \<lparr>InSizeX = 2, InSizeY = 2\<rparr>, CaptureSource = None, ProcessedLayers = []\<rparr>]\<rparr>)"
proof -
  have layers: "Layers (ModelOptions Bridged_Subsystem) = []"
    by (simp add: Bridged_Subsystem_def New_Subsystem_def)
  have run: "RunTask Example_Engine (GenerateImage_Task Example_Input Viewport) Bridged_Subsystem =
       Inr (Bridged_Subsystem\<lparr>ViewportCapture := Some Awaiting_Grabber\<rparr>)"
    by (simp add: GenerateImage_GameThread_def CaptureFromViewportSource_def StartCapturingViewport_def
        SetCaptureViewport_def Example_Engine_def Bridged_Subsystem_def New_Subsystem_def
        Awaiting_Grabber_def Let_def)
  have payloads: "Payloads Awaiting_Grabber =
      [\<lparr>Captured_Input = Example_Input, Captured_ViewportSize = \<lparr>X = 2, Y = 2\<rparr>\<rparr>]"
    by (simp add: Awaiting_Grabber_def)
  show ?thesis
    using layers run payloads Frame_A_not_Frame_B
      frame_delivery_without_layers [OF CopyFrameData_Frame_A]
      frame_delivery_without_layers [OF CopyFrameData_Frame_B]
    by (intro conjI)
qed

section \<open>Without a perspective viewport\<close>

text \<open>
  C5 at a failing input: an editor whose only viewport client is orthographic, a model
  with two declared layers. \<open>CreateSceneCaptureCamera\<close> returns the null capture and
  changes nothing, as the claim says; but \<open>CaptureFromViewportSource\<close> follows the null
  \<open>SceneCapture\<close> pointer to reach its component for the first layer, and so does
  \<open>CaptureFromSceneCaptureSource\<close> for a request that names no source.
\<close>

theorem missing_perspective_viewport_faults:
  "FindPerspectiveClient (GetLevelViewportClients Orthographic_Engine) = None
   \<and> CreateSceneCaptureCamera Orthographic_Engine Layered_Subsystem =
       Inr (\<lparr>SceneCapture = None, ViewportClient = None\<rparr>, Layered_Subsystem)
   \<and> CaptureFromViewportSource Orthographic_Engine Example_Input Layered_Subsystem = Inl NullDereference
   \<and> RunTask Orthographic_Engine (GenerateImage_Task Example_Input Viewport) Layered_Subsystem
       = Inl NullDereference
   \<and> CaptureFromSceneCaptureSource Orthographic_Engine Example_Input Layered_Subsystem = Inl NullDereference"
  by (simp add: CreateSceneCaptureCamera_def CaptureFromViewportSource_def StartCapturingViewport_def
      SetCaptureViewport_def GenerateImage_GameThread_def CaptureFromSceneCaptureSource_def
      Orthographic_Engine_def Example_Engine_def Layered_Subsystem_def Bridged_Subsystem_def
      New_Subsystem_def Declared_Layers_def Example_Input_def Let_def)

section \<open>CopyFrameData on well-formed sizes\<close>

text \<open>Whatever the sizes, a call that returns hands back as many elements as it allocated.\<close>

lemma Memcpy_length:
  "Memcpy dst d src s n = Inr dst' \<Longrightarrow> length dst' = length dst"
  by (auto simp: Memcpy_def split: if_splits)

lemma CopyRows_length:
  "CopyRows Row Rows w bx src s dst d = Inr dst' \<Longrightarrow> length dst' = length dst"
proof (induction Row Rows w bx src s dst d rule: CopyRows.induct)
  case (1 Row Rows w bx src s dst d)
  show ?case
  proof (cases "Row < Rows")
    case True
    with "1.prems" obtain mid where mid: "Memcpy dst d src s w = Inr mid"
      and rest: "CopyRows (Row + 1) Rows w bx src (s + bx) mid (d + w) = Inr dst'"
      by (auto simp: CopyRows.simps [of Row] split: sum.splits)
    from "1.IH" [OF True mid rest] Memcpy_length [OF mid] show ?thesis by simp
  next
    case False
    with "1.prems" show ?thesis by (simp add: CopyRows.simps [of Row])
  qed
qed

lemma CopyFrameData_length:
  assumes "CopyFrameData TargetSize BufferSize ColorBuffer = Inr CopiedFrame"
  shows "int (length CopiedFrame) = int32 (X TargetSize * Y TargetSize)"
  using assms
  by (auto simp: CopyFrameData_def Let_def split: if_splits dest!: CopyRows_length)

lemma int32_in_range: "0 \<le> n \<Longrightarrow> n < 2 ^ 31 \<Longrightarrow> int32 n = n"
  by (simp add: int32_def)

lemma Memcpy_in_bounds:
  assumes "d + n \<le> length dst" and "s + n \<le> length src"
  shows "Memcpy dst (int d) src (int s) (int n) =
           Inr (take d dst @ map Some (take n (drop s src)) @ drop (d + n) dst)"
  using assms by (auto simp: Memcpy_def nat_add_distrib)

lemma CopyRows_rows:
  assumes "k \<le> m" and "W \<le> BX" and "m * BX \<le> length src" and "m * W \<le> length dst"
  shows "CopyRows (int k) (int m) (int W) (int BX) src (int (k * BX)) dst (int (k * W)) =
           Inr (take (k * W) dst
                @ concat (map (\<lambda>r. map Some (take W (drop (r * BX) src))) [k..<m])
                @ drop (m * W) dst)"
  using assms
proof (induction "m - k" arbitrary: k dst)
  case 0
  then have "k = m" by simp
  then show ?case by (simp add: CopyRows.simps [of "int m"])
next
  case (Suc n)
  then have lt: "k < m" and n: "n = m - Suc k" by simp_all
  have kW: "k * W + W \<le> length dst"
  proof -
    have "Suc k * W \<le> m * W" using lt by (intro mult_le_mono1) simp
    with Suc.prems(4) show ?thesis by simp
  qed
  have kB: "k * BX + W \<le> length src"
  proof -
    have "Suc k * BX \<le> m * BX" using lt by (intro mult_le_mono1) simp
    with Suc.prems(2,3) show ?thesis by simp
  qed
  define row where "row = map Some (take W (drop (k * BX) src))"
  have row_len: "length row = W" using kB by (simp add: row_def)
  define mid where "mid = take (k * W) dst @ row @ drop (k * W + W) dst"
  have copy: "Memcpy dst (int (k * W)) src (int (k * BX)) (int W) = Inr mid"
    using Memcpy_in_bounds [OF kW kB] by (simp add: mid_def row_def)
  have mid_len: "length mid = length dst"
    using kW by (simp add: mid_def row_len)
  have IH: "CopyRows (int (Suc k)) (int m) (int W) (int BX) src (int (Suc k * BX)) mid (int (Suc k * W)) =
           Inr (take (Suc k * W) mid
                @ concat (map (\<lambda>r. map Some (take W (drop (r * BX) src))) [Suc k..<m])
                @ drop (m * W) mid)"
    using Suc.hyps(1) [OF n _ Suc.prems(2,3), of mid] lt Suc.prems(4) mid_len by simp
  have take_mid: "take (Suc k * W) mid = take (k * W) dst @ row"
    using kW by (simp add: mid_def row_len min_absorb2)
  have mW: "Suc k * W \<le> m * W" using lt by (intro mult_le_mono1) simp
  have drop_mid: "drop (m * W) mid = drop (m * W) dst"
  proof -
    have "drop (m * W) mid = drop (m * W - (k * W + W)) (drop (k * W + W) dst)"
      using kW mW lt by (simp add: mid_def row_len)
    also have "\<dots> = drop (m * W) dst" using mW by simp
    finally show ?thesis .
  qed
  have upt: "[k..<m] = k # [Suc k..<m]" using lt by (simp add: upt_conv_Cons)
  have lt': "int k < int m" using lt by simp
  have args: "int k + 1 = int (Suc k)" "int (k * BX) + int BX = int (Suc k * BX)"
    "int (k * W) + int W = int (Suc k * W)"
    by simp_all
  have step: "CopyRows (int k) (int m) (int W) (int BX) src (int (k * BX)) dst (int (k * W)) =
      CopyRows (int (Suc k)) (int m) (int W) (int BX) src (int (Suc k * BX)) mid (int (Suc k * W))"
    by (subst CopyRows.simps) (simp only: lt' if_True copy sum.case args)
  show ?case
    unfolding step IH take_mid drop_mid upt row_def by simp
qed


text \<open>
  A call with a target of positive area whose pixel count fits 32 bits, and a source
  that holds at least the rows and columns its size announces, returns: the rows
  copied, each \<open>min\<close> of the two widths long and one right after the other, then the
  rest of the target unwritten.
\<close>

lemma CopyFrameData_rows:
  assumes target: "0 < X TargetSize" "0 < Y TargetSize" "X TargetSize * Y TargetSize < 2 ^ 31"
      and buffer: "0 \<le> X BufferSize" "0 \<le> Y BufferSize"
      and source: "nat (X BufferSize) * nat (Y BufferSize) \<le> length ColorBuffer"
  shows "CopyFrameData TargetSize BufferSize ColorBuffer =
           Inr (concat (map (\<lambda>r. map Some (take (nat (min (X TargetSize) (X BufferSize)))
                                               (drop (r * nat (X BufferSize)) ColorBuffer)))
                            [0..<nat (min (Y TargetSize) (Y BufferSize))])
                @ replicate (nat (X TargetSize * Y TargetSize)
                             - nat (min (Y TargetSize) (Y BufferSize)) * nat (min (X TargetSize) (X BufferSize)))
                    None)"
proof -
  define W where "W = nat (min (X TargetSize) (X BufferSize))"
  define H where "H = nat (min (Y TargetSize) (Y BufferSize))"
  define BX where "BX = nat (X BufferSize)"
  define N where "N = nat (X TargetSize * Y TargetSize)"
  have N: "int32 (X TargetSize * Y TargetSize) = int N" "0 < N"
    using target by (simp_all add: int32_in_range N_def)
  have ints: "min (X TargetSize) (X BufferSize) = int W" "min (Y TargetSize) (Y BufferSize) = int H"
    "X BufferSize = int BX"
    using target buffer by (simp_all add: W_def H_def BX_def)
  have W_BX: "W \<le> BX" by (simp add: W_def BX_def)
  have src: "H * BX \<le> length ColorBuffer"
  proof -
    have "H \<le> nat (Y BufferSize)" by (simp add: H_def)
    then have "H * BX \<le> nat (Y BufferSize) * BX" by (rule mult_le_mono1)
    also have "\<dots> = nat (X BufferSize) * nat (Y BufferSize)"
      unfolding BX_def by (rule mult.commute)
    also note source
    finally show ?thesis .
  qed
  have dst: "H * W \<le> N"
  proof -
    have "H \<le> nat (Y TargetSize)" "W \<le> nat (X TargetSize)" by (simp_all add: H_def W_def)
    then have "H * W \<le> nat (Y TargetSize) * nat (X TargetSize)" by (rule mult_le_mono)
    also have "\<dots> = N" using target by (simp add: N_def nat_mult_distrib mult.commute)
    finally show ?thesis .
  qed
  have rows: "CopyRows 0 (int H) (int W) (int BX) ColorBuffer 0 (replicate N None) 0 =
      Inr (concat (map (\<lambda>r. map Some (take W (drop (r * BX) ColorBuffer))) [0..<H])
           @ replicate (N - H * W) None)"
    using CopyRows_rows [of 0 H W BX ColorBuffer "replicate N None"] W_BX src dst by simp
  have "CopyFrameData TargetSize BufferSize ColorBuffer =
          CopyRows 0 (min (Y TargetSize) (Y BufferSize)) (min (X TargetSize) (X BufferSize))
            (X BufferSize) ColorBuffer 0
            (replicate (nat (int32 (X TargetSize * Y TargetSize))) None) 0"
    using N by (simp add: CopyFrameData_def Let_def)
  also have "\<dots> = CopyRows 0 (int H) (int W) (X BufferSize) ColorBuffer 0 (replicate N None) 0"
    by (simp only: ints(1,2) N nat_int)
  also have "\<dots> = CopyRows 0 (int H) (int W) (int BX) ColorBuffer 0 (replicate N None) 0"
    by (simp only: ints(3))
  also note rows
  finally show ?thesis
    unfolding W_def H_def BX_def N_def .
qed


text \<open>
  Where the target is no wider than the source, the rows land where the target has its
  own: pixel (r, c) of the source is pixel (r, c) of the result.
\<close>

lemma length_concat_rows:
  assumes "\<forall>r < H. length (f r) = W"
  shows "length (concat (map f [0..<H])) = H * W"
  using assms by (induction H) simp_all

lemma nth_concat_rows:
  assumes "\<forall>r < H. length (f r) = W" and "r < H" and "c < W"
  shows "concat (map f [0..<H]) ! (r * W + c) = f r ! c"
  using assms
proof (induction H)
  case 0
  then show ?case by simp
next
  case (Suc H)
  have len: "length (concat (map f [0..<H])) = H * W"
    using Suc.prems(1) by (intro length_concat_rows) simp
  show ?case
  proof (cases "r < H")
    case True
    have "r * W + c < Suc r * W" using Suc.prems(3) by simp
    also have "\<dots> \<le> H * W" using True by (intro mult_le_mono1) simp
    finally have "r * W + c < H * W" .
    with Suc.IH True Suc.prems show ?thesis by (simp add: nth_append len)
  next
    case False
    with Suc.prems(2) have "r = H" by simp
    then show ?thesis by (simp add: nth_append len)
  qed
qed

lemma CopyFrameData_crop:
  assumes target: "0 < X TargetSize" "0 < Y TargetSize" "X TargetSize * Y TargetSize < 2 ^ 31"
      and buffer: "X TargetSize \<le> X BufferSize" "0 \<le> Y BufferSize"
      and source: "nat (X BufferSize) * nat (Y BufferSize) \<le> length ColorBuffer"
      and row: "r < nat (min (Y TargetSize) (Y BufferSize))" and col: "c < nat (X TargetSize)"
  shows "\<exists>CopiedFrame. CopyFrameData TargetSize BufferSize ColorBuffer = Inr CopiedFrame
           \<and> length CopiedFrame = nat (X TargetSize) * nat (Y TargetSize)
           \<and> CopiedFrame ! (r * nat (X TargetSize) + c) = Some (ColorBuffer ! (r * nat (X BufferSize) + c))"
proof -
  define W where "W = nat (X TargetSize)"
  define H where "H = nat (min (Y TargetSize) (Y BufferSize))"
  define BX where "BX = nat (X BufferSize)"
  define f where "f = (\<lambda>r. map Some (take W (drop (r * BX) ColorBuffer)))"
  define CopiedFrame where
    "CopiedFrame = concat (map f [0..<H]) @ replicate (nat (X TargetSize * Y TargetSize) - H * W) None"
  have minW: "nat (min (X TargetSize) (X BufferSize)) = W"
    using buffer(1) by (simp add: W_def min_absorb1)
  have returns: "CopyFrameData TargetSize BufferSize ColorBuffer = Inr CopiedFrame"
    using CopyFrameData_rows [OF target _ buffer(2) source] target(1) buffer(1)
    by (simp add: min_absorb1 CopiedFrame_def f_def H_def BX_def W_def)
  have W_BX: "W \<le> BX" using buffer(1) by (simp add: W_def BX_def)
  have H_le: "H \<le> nat (Y BufferSize)" by (simp add: H_def)
  have in_source: "r' * BX + W \<le> length ColorBuffer" if "r' < H" for r'
  proof -
    have "r' * BX + W \<le> Suc r' * BX" using W_BX by simp
    also have "\<dots> \<le> nat (Y BufferSize) * BX" using that H_le by (intro mult_le_mono1) simp
    also have "\<dots> = nat (X BufferSize) * nat (Y BufferSize)" unfolding BX_def by (rule mult.commute)
    also note source
    finally show ?thesis .
  qed
  have rows_len: "\<forall>r' < H. length (f r') = W"
  proof (intro allI impI)
    fix r' assume "r' < H"
    from in_source [OF this] show "length (f r') = W" by (simp add: f_def)
  qed
  have len: "length CopiedFrame = nat (X TargetSize) * nat (Y TargetSize)"
  proof -
    have "H \<le> nat (Y TargetSize)" by (simp add: H_def)
    then have "H * W \<le> nat (Y TargetSize) * W" by (rule mult_le_mono1)
    also have "\<dots> = nat (X TargetSize * Y TargetSize)"
      using target by (simp add: W_def nat_mult_distrib mult.commute)
    finally have "H * W \<le> nat (X TargetSize * Y TargetSize)" .
    then show ?thesis
      using target by (simp add: CopiedFrame_def length_concat_rows [OF rows_len] nat_mult_distrib)
  qed
  have rH: "r < H" using row by (simp add: H_def)
  have cW: "c < W" using col by (simp add: W_def)
  have "r * W + c < Suc r * W" using cW by simp
  also have "\<dots> \<le> H * W" using rH by (intro mult_le_mono1) simp
  finally have inside: "r * W + c < length (concat (map f [0..<H]))"
    by (simp add: length_concat_rows [OF rows_len])
  have "CopiedFrame ! (r * W + c) = f r ! c"
    using inside by (simp add: CopiedFrame_def nth_append nth_concat_rows [OF rows_len rH cW])
  also have "\<dots> = Some (ColorBuffer ! (r * BX + c))"
    using cW in_source [OF rH] by (simp add: f_def)
  finally have "CopiedFrame ! (r * W + c) = Some (ColorBuffer ! (r * BX + c))" .
  with returns len show ?thesis
    unfolding W_def BX_def by blast
qed

section \<open>CopyFrameData at the edges\<close>

text \<open>
  C4 at a failing input: a target 3 wide and 2 high, a source 2 by 2 holding the colours
  1, 2 in its first row and 3, 4 in its second. Both rows are copied 2 wide, but the
  second lands right after the first: colour 3, the source's (row 1, column 0), is at
  index 2 of the target, which is its (row 0, column 2), and the target's
  (row 1, column 0), index 3, holds colour 4.
\<close>

theorem CopyFrameData_wider_target_shears_rows:
  "CopyFrameData \<lparr>X = 3, Y = 2\<rparr> \<lparr>X = 2, Y = 2\<rparr> [Pixel 1, Pixel 2, Pixel 3, Pixel 4] =
     Inr [Some (Pixel 1), Some (Pixel 2), Some (Pixel 3), Some (Pixel 4), None, None]"
  by (simp add: CopyFrameData_def int32_def CopyRows.simps Memcpy_def numeral_eq_Suc)

text \<open>
  C9 at failing inputs: for a target with no pixel the call stops at the range check of
  \<open>&CopiedFrame[0]\<close> instead of returning an empty array.
\<close>

theorem CopyFrameData_zero_target_fails_range_check:
  "CopyFrameData \<lparr>X = 0, Y = 0\<rparr> \<lparr>X = 2, Y = 2\<rparr> [Pixel 1, Pixel 2, Pixel 3, Pixel 4] = Inl RangeCheckFailed
   \<and> CopyFrameData \<lparr>X = 0, Y = 2\<rparr> \<lparr>X = 2, Y = 2\<rparr> [Pixel 1, Pixel 2, Pixel 3, Pixel 4] = Inl RangeCheckFailed
   \<and> CopyFrameData \<lparr>X = 2, Y = 0\<rparr> \<lparr>X = 2, Y = 2\<rparr> [Pixel 1, Pixel 2, Pixel 3, Pixel 4] = Inl RangeCheckFailed
   \<and> CopyFrameData \<lparr>X = 0, Y = 0\<rparr> \<lparr>X = 0, Y = 0\<rparr> [] = Inl RangeCheckFailed"
  by (simp add: CopyFrameData_def int32_def)

end
